theory Spec2Isabelle
  imports Complex_Main "HOL-Library.Multiset"
begin

section \<open>Tensors and the numeric primitives the program calls\<close>

text \<open>
  The program (\<open>src/utils/gmn.py\<close>) computes on rank-1 and rank-2 float tensors.
  A rank-1 tensor is a list of reals, a rank-2 tensor of shape \<open>[n, d]\<close> is a list of
  \<open>n\<close> rows of length \<open>d\<close>. Arithmetic is exact real arithmetic: rounding, infinities
  and NaN of 32-bit floats are not represented. The inner dimension \<open>d\<close> of a tensor is
  part of its static shape in the program; where an operation needs it to produce rows
  for an empty reduction, the functions below take it as an explicit argument.
  Exceptions are values of type \<open>error\<close>; a function that may raise returns
  \<open>error + 'a\<close> with \<open>Inl\<close> for the exception.
\<close>

type_synonym vec = "real list"
type_synonym mat = "real list list"

datatype error =
    ValueError string
  | KeyError string
  | IndexError string
  | InvalidArgumentError string

definition vadd :: "vec \<Rightarrow> vec \<Rightarrow> vec" where
  "vadd a b = map2 (+) a b"

definition vsub :: "vec \<Rightarrow> vec \<Rightarrow> vec" where
  "vsub a b = map2 (-) a b"

definition vmul :: "vec \<Rightarrow> vec \<Rightarrow> vec" where
  "vmul a b = map2 (*) a b"

definition vscale :: "real \<Rightarrow> vec \<Rightarrow> vec" where
  "vscale c a = map ((*) c) a"

definition zeros :: "nat \<Rightarrow> vec" where
  "zeros d = replicate d 0"

text \<open>\<open>tf.reduce_sum(rows, axis=0)\<close> of a \<open>[k, d]\<close> tensor, also for \<open>k = 0\<close>.\<close>

definition reduce_sum_rows :: "nat \<Rightarrow> mat \<Rightarrow> vec" where
  "reduce_sum_rows d rows = foldr vadd rows (zeros d)"

text \<open>\<open>tf.reduce_mean\<close> over the last axis. For an empty row the program gets NaN;
  the theorems that mention a mean assume a non-empty row.\<close>

definition reduce_mean :: "vec \<Rightarrow> real" where
  "reduce_mean v = sum_list v / real (length v)"

definition relu :: "real \<Rightarrow> real" where
  "relu v = max 0 v"

definition sigmoid :: "real \<Rightarrow> real" where
  "sigmoid v = 1 / (1 + exp (- v))"

text \<open>\<open>tf.matmul(x, y, transpose_b=True)\<close> for \<open>x : [n, d]\<close> and \<open>y : [m, d]\<close>.\<close>

definition matmul_transpose_b :: "mat \<Rightarrow> mat \<Rightarrow> mat" where
  "matmul_transpose_b x y = map (\<lambda>xp. map (\<lambda>yq. sum_list (vmul xp yq)) y) x"

text \<open>\<open>tf.matmul(a, b)\<close> for \<open>a : [n, m]\<close> and \<open>b : [m, d]\<close>: row \<open>p\<close> of the product is
  the sum over \<open>q\<close> of \<open>a[p, q] * b[q]\<close>.\<close>

definition matmul :: "nat \<Rightarrow> mat \<Rightarrow> mat \<Rightarrow> mat" where
  "matmul d a b = map (\<lambda>arow. reduce_sum_rows d (map2 vscale arow b)) a"

text \<open>The transpose of a tensor with \<open>m\<close> columns.\<close>

definition transpose_mat :: "nat \<Rightarrow> mat \<Rightarrow> mat" where
  "transpose_mat m a = map (\<lambda>q. map (\<lambda>r. r ! q) a) [0..<m]"

section \<open>Pairwise similarity functions\<close>

text \<open>
  \<^verbatim>\<open>
  def pairwise_euclidean_similarity(x, y):
      s = 2 * tf.matmul(x, y, transpose_b=True)
      diag_x = tf.reduce_sum(x * x, axis=-1, keepdims=True)
      diag_y = tf.reshape(tf.reduce_sum(y * y, axis=-1), (1, -1))
      return s - diag_x - diag_y
  \<close>
  \<open>diag_x\<close> is a column and \<open>diag_y\<close> a row; the subtraction broadcasts them over
  the \<open>[n, m]\<close> tensor \<open>s\<close>.
\<close>

definition pairwise_euclidean_similarity :: "mat \<Rightarrow> mat \<Rightarrow> mat" where
  "pairwise_euclidean_similarity x y =
     (let s = map (map ((*) 2)) (matmul_transpose_b x y);
          diag_x = map (\<lambda>r. sum_list (vmul r r)) x;
          diag_y = map (\<lambda>r. sum_list (vmul r r)) y
      in map2 (\<lambda>srow dx. map2 (\<lambda>sv dy. sv - dx - dy) srow diag_y) s diag_x)"

definition pairwise_dot_product_similarity :: "mat \<Rightarrow> mat \<Rightarrow> mat" where
  "pairwise_dot_product_similarity x y = matmul_transpose_b x y"

text \<open>\<open>tf.nn.l2_normalize(x, axis=-1)\<close> divides each row by
  \<open>sqrt(max(sum(x**2), 1e-12))\<close>.\<close>

definition l2_normalize :: "mat \<Rightarrow> mat" where
  "l2_normalize x =
     map (\<lambda>r. map (\<lambda>v. v / sqrt (max (sum_list (vmul r r)) (1 / 10 ^ 12))) r) x"

definition pairwise_cosine_similarity :: "mat \<Rightarrow> mat \<Rightarrow> mat" where
  "pairwise_cosine_similarity x y = matmul_transpose_b (l2_normalize x) (l2_normalize y)"

definition PAIRWISE_SIMILARITY_FUNCTION :: "string \<rightharpoonup> (mat \<Rightarrow> mat \<Rightarrow> mat)" where
  "PAIRWISE_SIMILARITY_FUNCTION =
     [''euclidean'' \<mapsto> pairwise_euclidean_similarity,
      ''dotproduct'' \<mapsto> pairwise_dot_product_similarity,
      ''cosine'' \<mapsto> pairwise_cosine_similarity]"

text \<open>
  \<^verbatim>\<open>
  def get_pairwise_similarity(name):
      if name not in PAIRWISE_SIMILARITY_FUNCTION:
          raise ValueError('Similarity metric name "%s" not supported.' % name)
      else:
          return PAIRWISE_SIMILARITY_FUNCTION[name]
  \<close>
\<close>

definition get_pairwise_similarity :: "string \<Rightarrow> error + (mat \<Rightarrow> mat \<Rightarrow> mat)" where
  "get_pairwise_similarity name =
     (case PAIRWISE_SIMILARITY_FUNCTION name of
        None \<Rightarrow>
          Inl (ValueError (''Similarity metric name '' @ [CHR 0x22] @ name @ [CHR 0x22]
                 @ '' not supported.''))
      | Some f \<Rightarrow> Inr f)"

section \<open>Float32 rounding\<close>

text \<open>
  The tensors of the program hold float32 numbers, and every TensorFlow operation
  returns the float32 nearest to the exact result, ties to the even significand. The
  embedding computes with real numbers, the values the program approximates. Where the
  exact equality of a result is at stake, for \<open>pairwise_euclidean_similarity\<close>, the
  function is given once more below with the rounding of every operation written out.

  \<open>float32_round v\<close> is the float32 nearest to \<open>v\<close>: 24 significant bits, so numbers with
  leading bit \<open>2\<^sup>e\<close> are spaced \<open>2\<^sup>e\<^sup>-\<^sup>2\<^sup>3\<close> apart, and \<open>e\<close> is at least \<open>-126\<close> (below that the
  numbers are subnormal, all spaced \<open>2\<^sup>-\<^sup>1\<^sup>4\<^sup>9\<close> apart). A result beyond the largest float32
  becomes an infinity in the program; infinities are not represented, and
  \<open>float32_round\<close> stands for the program only on magnitudes below \<open>2\<^sup>1\<^sup>2\<^sup>8\<close>.
\<close>

definition round_half_even :: "real \<Rightarrow> int" where
  "round_half_even v =
     (let f = \<lfloor>v\<rfloor>; r = v - of_int f
      in if r < 1 / 2 then f else if 1 / 2 < r then f + 1 else if even f then f else f + 1)"

definition float32_round :: "real \<Rightarrow> real" where
  "float32_round v =
     (if v = 0 then 0
      else let e = max \<lfloor>log 2 \<bar>v\<bar>\<rfloor> (- 126);
               ulp = 2 powr (of_int e - 23)
           in of_int (round_half_even (v / ulp)) * ulp)"

text \<open>
  \<open>x * y\<close> rounds every product; \<open>tf.reduce_sum\<close> and the sums inside \<open>tf.matmul\<close> round
  after every addition. TensorFlow does not fix the order in which a kernel adds the
  terms (nor whether it fuses a product with the addition); \<open>reduce_sum_float32\<close> adds
  them from left to right.
\<close>

definition reduce_sum_float32 :: "vec \<Rightarrow> real" where
  "reduce_sum_float32 v = foldl (\<lambda>acc t. float32_round (acc + t)) 0 v"

definition vmul_float32 :: "vec \<Rightarrow> vec \<Rightarrow> vec" where
  "vmul_float32 a b = map2 (\<lambda>u v. float32_round (u * v)) a b"

definition matmul_transpose_b_float32 :: "mat \<Rightarrow> mat \<Rightarrow> mat" where
  "matmul_transpose_b_float32 x y =
     map (\<lambda>xp. map (\<lambda>yq. reduce_sum_float32 (vmul_float32 xp yq)) y) x"

text \<open>
  \<open>pairwise_euclidean_similarity\<close> as above, every operation rounded: the product with
  the constant 2, the two reductions, and the two subtractions from left to right.
\<close>

definition pairwise_euclidean_similarity_float32 :: "mat \<Rightarrow> mat \<Rightarrow> mat" where
  "pairwise_euclidean_similarity_float32 x y =
     (let s = map (map (\<lambda>v. float32_round (2 * v))) (matmul_transpose_b_float32 x y);
          diag_x = map (\<lambda>r. reduce_sum_float32 (vmul_float32 r r)) x;
          diag_y = map (\<lambda>r. reduce_sum_float32 (vmul_float32 r r)) y
      in map2 (\<lambda>srow dx. map2 (\<lambda>sv dy. float32_round (float32_round (sv - dx) - dy))
                 srow diag_y) s diag_x)"

section \<open>Distances and losses\<close>

text \<open>
  \<^verbatim>\<open>
  def euclidean_distance(x, y):
      """This is the squared Euclidean distance."""
      return tf.reduce_sum((x - y) ** 2, axis=-1)

  def approximate_hamming_similarity(x, y):
      return tf.reduce_mean(tf.tanh(x) * tf.tanh(y), axis=1)
  \<close>
  Both take \<open>[n, d]\<close> tensors of the same shape and return one number per row.
\<close>

definition euclidean_distance :: "mat \<Rightarrow> mat \<Rightarrow> vec" where
  "euclidean_distance x y = map2 (\<lambda>xr yr. sum_list (map (\<lambda>v. v ^ 2) (vsub xr yr))) x y"

definition approximate_hamming_similarity :: "mat \<Rightarrow> mat \<Rightarrow> vec" where
  "approximate_hamming_similarity x y =
     map2 (\<lambda>xr yr. reduce_mean (vmul (map tanh xr) (map tanh yr))) x y"

text \<open>
  \<^verbatim>\<open>
  def pairwise_loss(x, y, labels, loss_type='margin', margin=1.0):
      labels = tf.cast(labels, x.dtype)
      if loss_type == 'margin':
          return tf.nn.relu(margin - labels * (1 - euclidean_distance(x, y)))
      elif loss_type == 'hamming':
          return 0.25 * (labels - approximate_hamming_similarity(x, y)) ** 2
      else:
          raise ValueError('Unknown loss_type %s' % loss_type)
  \<close>
\<close>

definition pairwise_loss :: "mat \<Rightarrow> mat \<Rightarrow> int list \<Rightarrow> string \<Rightarrow> real \<Rightarrow> error + vec" where
  "pairwise_loss x y labels loss_type margin =
     (let labels = map real_of_int labels in
      if loss_type = ''margin'' then
        Inr (map relu (map2 (\<lambda>l d. margin - l * (1 - d)) labels (euclidean_distance x y)))
      else if loss_type = ''hamming'' then
        Inr (map2 (\<lambda>l s. 0.25 * (l - s) ^ 2) labels (approximate_hamming_similarity x y))
      else Inl (ValueError (''Unknown loss_type '' @ loss_type)))"

text \<open>
  \<^verbatim>\<open>
  def triplet_loss(x_1, y, x_2, z, loss_type='margin', margin=1.0):
      if loss_type == 'margin':
          return tf.nn.relu(margin +
                            euclidean_distance(x_1, y) -
                            euclidean_distance(x_2, z))
      elif loss_type == 'hamming':
          return 0.125 * ((approximate_hamming_similarity(x_1, y) - 1) ** 2 +
                          (approximate_hamming_similarity(x_2, z) + 1) ** 2)
      else:
          raise ValueError('Unknown loss_type %s' % loss_type)
  \<close>
\<close>

definition triplet_loss :: "mat \<Rightarrow> mat \<Rightarrow> mat \<Rightarrow> mat \<Rightarrow> string \<Rightarrow> real \<Rightarrow> error + vec" where
  "triplet_loss x_1 y x_2 z loss_type margin =
     (if loss_type = ''margin'' then
        Inr (map relu (map2 (\<lambda>d1 d2. margin + d1 - d2)
               (euclidean_distance x_1 y) (euclidean_distance x_2 z)))
      else if loss_type = ''hamming'' then
        Inr (map2 (\<lambda>s1 s2. 0.125 * ((s1 - 1) ^ 2 + (s2 + 1) ^ 2))
               (approximate_hamming_similarity x_1 y) (approximate_hamming_similarity x_2 z))
      else Inl (ValueError (''Unknown loss_type '' @ loss_type)))"

section \<open>Gather and segment reductions\<close>

text \<open>
  \<open>tf.gather(params, indices)\<close> along the first axis. Indices are node indices
  (\<open>nat\<close>); an index past the end is \<open>InvalidArgumentError\<close>, as the CPU kernel
  reports it.
\<close>

definition gather :: "'a list \<Rightarrow> nat list \<Rightarrow> error + 'a list" where
  "gather params indices =
     (if list_all (\<lambda>i. i < length params) indices then Inr (map ((!) params) indices)
      else Inl (InvalidArgumentError ''indices out of range''))"

text \<open>The rows of \<open>data\<close> whose segment id is \<open>g\<close>, in the order they are listed.\<close>

definition segment_rows :: "'a list \<Rightarrow> nat list \<Rightarrow> nat \<Rightarrow> 'a list" where
  "segment_rows data ids g = map fst (filter (\<lambda>ri. snd ri = g) (zip data ids))"

definition segment_ids_ok :: "'a list \<Rightarrow> nat list \<Rightarrow> nat \<Rightarrow> bool" where
  "segment_ids_ok data ids n \<longleftrightarrow> length ids = length data \<and> list_all (\<lambda>i. i < n) ids"

text \<open>
  The \<open>tf.unsorted_segment_*\<close> reductions of a \<open>[k, d]\<close> tensor into \<open>n\<close> segments.
  Row \<open>g\<close> of the result reduces the rows whose id is \<open>g\<close>. An empty segment gives
  zeros for \<open>sum\<close>, \<open>mean\<close> and \<open>sqrt_n\<close> (the last two divide by \<open>max(count, 1)\<close>
  and its square root) and the lowest finite float for \<open>max\<close>, which starts from that
  value. An id outside \<open>[0, n)\<close> is \<open>InvalidArgumentError\<close> (the CPU kernels).
\<close>

definition float32_lowest :: real where
  "float32_lowest = - (2 ^ 128 - 2 ^ 104)"

definition vmax :: "vec \<Rightarrow> vec \<Rightarrow> vec" where
  "vmax a b = map2 max a b"

definition segment_reduce ::
  "(mat \<Rightarrow> vec) \<Rightarrow> mat \<Rightarrow> nat list \<Rightarrow> nat \<Rightarrow> error + mat" where
  "segment_reduce f data ids n =
     (if segment_ids_ok data ids n then Inr (map (\<lambda>g. f (segment_rows data ids g)) [0..<n])
      else Inl (InvalidArgumentError ''segment_ids out of range''))"

definition unsorted_segment_sum :: "nat \<Rightarrow> mat \<Rightarrow> nat list \<Rightarrow> nat \<Rightarrow> error + mat" where
  "unsorted_segment_sum d data ids n = segment_reduce (reduce_sum_rows d) data ids n"

definition unsorted_segment_mean :: "nat \<Rightarrow> mat \<Rightarrow> nat list \<Rightarrow> nat \<Rightarrow> error + mat" where
  "unsorted_segment_mean d data ids n =
     segment_reduce
       (\<lambda>rows. map (\<lambda>v. v / real (max (length rows) 1)) (reduce_sum_rows d rows)) data ids n"

definition unsorted_segment_sqrt_n :: "nat \<Rightarrow> mat \<Rightarrow> nat list \<Rightarrow> nat \<Rightarrow> error + mat" where
  "unsorted_segment_sqrt_n d data ids n =
     segment_reduce
       (\<lambda>rows. map (\<lambda>v. v / sqrt (real (max (length rows) 1))) (reduce_sum_rows d rows))
       data ids n"

definition unsorted_segment_max :: "nat \<Rightarrow> mat \<Rightarrow> nat list \<Rightarrow> nat \<Rightarrow> error + mat" where
  "unsorted_segment_max d data ids n =
     segment_reduce (\<lambda>rows. foldr vmax rows (replicate d float32_lowest)) data ids n"

section \<open>Graph aggregator\<close>

text \<open>
  \<^verbatim>\<open>
  AGGREGATION_TYPE = {
      'sum': tf.unsorted_segment_sum,
      'mean': tf.unsorted_segment_mean,
      'sqrt_n': tf.unsorted_segment_sqrt_n,
      'max': tf.unsorted_segment_max,
  }
  \<close>
\<close>

definition AGGREGATION_TYPE ::
  "string \<rightharpoonup> (nat \<Rightarrow> mat \<Rightarrow> nat list \<Rightarrow> nat \<Rightarrow> error + mat)" where
  "AGGREGATION_TYPE =
     [''sum'' \<mapsto> unsorted_segment_sum,
      ''mean'' \<mapsto> unsorted_segment_mean,
      ''sqrt_n'' \<mapsto> unsorted_segment_sqrt_n,
      ''max'' \<mapsto> unsorted_segment_max]"

text \<open>
  The aggregator object. Its two networks (\<open>snt.nets.MLP\<close>, learned) act on each row
  on its own; they are the fields \<open>node_state_g_mlp\<close> and \<open>graph_transform_mlp\<close>, any
  functions on rows.
  \<^verbatim>\<open>
  def __init__(self, node_hidden_sizes, graph_transform_sizes=None,
               gated=True, aggregation_type='sum', name='graph-aggregator'):
      self._node_hidden_sizes = node_hidden_sizes
      self._graph_transform_sizes = graph_transform_sizes
      self._graph_state_dim = node_hidden_sizes[-1]
      self._gated = gated
      self._aggregation_type = aggregation_type
      self._aggregation_op = AGGREGATION_TYPE[aggregation_type]
  \<close>
\<close>

record graph_aggregator =
  agg_node_hidden_sizes :: "nat list"
  graph_transform_sizes :: "nat list option"
  graph_state_dim :: nat
  gated :: bool
  aggregation_type :: string
  aggregation_op :: "nat \<Rightarrow> mat \<Rightarrow> nat list \<Rightarrow> nat \<Rightarrow> error + mat"
  node_state_g_mlp :: "vec \<Rightarrow> vec"
  graph_transform_mlp :: "vec \<Rightarrow> vec"

definition GraphAggregator_init ::
  "nat list \<Rightarrow> nat list option \<Rightarrow> bool \<Rightarrow> string \<Rightarrow> (vec \<Rightarrow> vec) \<Rightarrow> (vec \<Rightarrow> vec)
     \<Rightarrow> error + graph_aggregator" where
  "GraphAggregator_init node_hidden_sizes transform_sizes is_gated agg_type g_mlp t_mlp =
     (if node_hidden_sizes = [] then Inl (IndexError ''list index out of range'')
      else case AGGREGATION_TYPE agg_type of
        None \<Rightarrow> Inl (KeyError agg_type)
      | Some op \<Rightarrow>
          Inr \<lparr> agg_node_hidden_sizes = node_hidden_sizes,
                graph_transform_sizes = transform_sizes,
                graph_state_dim = last node_hidden_sizes,
                gated = is_gated,
                aggregation_type = agg_type,
                aggregation_op = op,
                node_state_g_mlp = g_mlp,
                graph_transform_mlp = t_mlp \<rparr>)"

text \<open>
  \<^verbatim>\<open>
  def _build(self, node_states, graph_idx, n_graphs):
      node_hidden_sizes = self._node_hidden_sizes
      if self._gated:
          node_hidden_sizes[-1] = self._graph_state_dim * 2
      node_states_g = snt.nets.MLP(
          node_hidden_sizes, name='node-state-g-mlp')(node_states)
      if self._gated:
          gates = tf.nn.sigmoid(node_states_g[:, :self._graph_state_dim])
          node_states_g = node_states_g[:, self._graph_state_dim:] * gates
      graph_states = self._aggregation_op(node_states_g, graph_idx, n_graphs)
      if self._aggregation_type == 'max':
          # reset everything that's smaller than -1e5 to 0.
          graph_states *= tf.cast(graph_states > -1e5, tf.float32)
      if (self._graph_transform_sizes is not None and
              len(self._graph_transform_sizes) > 0):
          graph_states = snt.nets.MLP(
              self._graph_transform_sizes, name='graph-transform-mlp')(graph_states)
      return graph_states
  \<close>
  \<open>node_values\<close> is the first half (the tensor \<open>node_states_g\<close> that is reduced); its
  rows have width \<open>graph_state_dim\<close>, the static inner dimension the reduction gets.
  The assignment to \<open>node_hidden_sizes[-1]\<close> only fixes the output size of the network
  and writes the same value at every call.
\<close>

definition node_values :: "graph_aggregator \<Rightarrow> mat \<Rightarrow> mat" where
  "node_values agg node_states =
     (let node_states_g = map (node_state_g_mlp agg) node_states in
      if gated agg then
        map (\<lambda>r. vmul (drop (graph_state_dim agg) r)
                    (map sigmoid (take (graph_state_dim agg) r))) node_states_g
      else node_states_g)"

definition has_graph_transform :: "graph_aggregator \<Rightarrow> bool" where
  "has_graph_transform agg =
     (case graph_transform_sizes agg of None \<Rightarrow> False | Some sizes \<Rightarrow> 0 < length sizes)"

definition GraphAggregator_build ::
  "graph_aggregator \<Rightarrow> mat \<Rightarrow> nat list \<Rightarrow> nat \<Rightarrow> error + mat" where
  "GraphAggregator_build agg node_states graph_idx n_graphs =
     (case aggregation_op agg (graph_state_dim agg) (node_values agg node_states)
             graph_idx n_graphs of
        Inl e \<Rightarrow> Inl e
      | Inr graph_states \<Rightarrow>
          (let graph_states =
                 (if aggregation_type agg = ''max'' then
                    map (map (\<lambda>v. v * (if v > - 100000 then 1 else 0))) graph_states
                  else graph_states)
           in if has_graph_transform agg then
                Inr (map (graph_transform_mlp agg) graph_states)
              else Inr graph_states))"

section \<open>Graph propagation layer\<close>

text \<open>
  \<open>tf.concat(tensors, axis=-1)\<close>: the rows of the tensors side by side. The tensors must
  have the same number of rows, and the list must not be empty.
\<close>

fun concat_last :: "mat list \<Rightarrow> error + mat" where
  "concat_last [] = Inl (ValueError ''concat of an empty list'')"
| "concat_last [m] = Inr m"
| "concat_last (m # ms) =
     (case concat_last ms of
        Inl e \<Rightarrow> Inl e
      | Inr r \<Rightarrow>
          if length m = length r then Inr (map2 (@) m r)
          else Inl (InvalidArgumentError ''dimension 0 of the inputs does not match''))"

text \<open>
  \<^verbatim>\<open>
  def graph_prop_once(node_states, from_idx, to_idx, message_net,
                      aggregation_module=tf.unsorted_segment_sum,
                      edge_features=None):
      from_states = tf.gather(node_states, from_idx)
      to_states = tf.gather(node_states, to_idx)
      edge_inputs = [from_states, to_states]
      if edge_features is not None:
          edge_inputs.append(edge_features)
      edge_inputs = tf.concat(edge_inputs, axis=-1)
      messages = message_net(edge_inputs)
      return aggregation_module(messages, to_idx, tf.shape(node_states)[0])
  \<close>
  \<open>message_net\<close> is a network that acts on each row on its own; \<open>d\<close> is the width of
  the messages (the static inner dimension of \<open>messages\<close>).
\<close>

definition graph_prop_once ::
  "nat \<Rightarrow> mat \<Rightarrow> nat list \<Rightarrow> nat list \<Rightarrow> (vec \<Rightarrow> vec)
     \<Rightarrow> (nat \<Rightarrow> mat \<Rightarrow> nat list \<Rightarrow> nat \<Rightarrow> error + mat) \<Rightarrow> mat option \<Rightarrow> error + mat" where
  "graph_prop_once d node_states from_idx to_idx message_net aggregation_module edge_features =
     (case gather node_states from_idx of
        Inl e \<Rightarrow> Inl e
      | Inr from_states \<Rightarrow>
     (case gather node_states to_idx of
        Inl e \<Rightarrow> Inl e
      | Inr to_states \<Rightarrow>
     (case concat_last ([from_states, to_states]
             @ (case edge_features of None \<Rightarrow> [] | Some ef \<Rightarrow> [ef])) of
        Inl e \<Rightarrow> Inl e
      | Inr edge_inputs \<Rightarrow>
          aggregation_module d (map message_net edge_inputs) to_idx (length node_states))))"

text \<open>
  \<open>snt.LayerNorm()\<close> normalises each row to mean 0 and variance 1 and then applies a
  learned scale \<open>gamma\<close> and offset \<open>beta\<close>:
  \<open>(x - mean) / sqrt(var + 1e-5) * gamma + beta\<close>.
\<close>

record layer_norm_params =
  ln_gamma :: vec
  ln_beta :: vec

definition LayerNorm :: "layer_norm_params \<Rightarrow> vec \<Rightarrow> vec" where
  "LayerNorm p r =
     (let mean = reduce_mean r;
          var = reduce_mean (map (\<lambda>v. (v - mean) ^ 2) r)
      in map2 (\<lambda>v gb. (v - mean) / sqrt (var + 1 / 10 ^ 5) * fst gb + snd gb)
           r (zip (ln_gamma p) (ln_beta p)))"

text \<open>
  The learned parts of one propagation layer: the message network, the network for the
  reverse direction (used when \<open>reverse_dir_param_different\<close>), the node update network
  (\<open>node-mlp\<close>) or GRU core, and the two layer norms. The networks are any functions on
  rows; the GRU maps an input row and a state row to the new state row.
\<close>

record layer_params =
  message_mlp :: "vec \<Rightarrow> vec"
  reverse_message_mlp :: "vec \<Rightarrow> vec"
  message_layer_norm :: layer_norm_params
  node_mlp :: "vec \<Rightarrow> vec"
  node_layer_norm :: layer_norm_params
  node_gru :: "vec \<Rightarrow> vec \<Rightarrow> vec"

text \<open>
  \<^verbatim>\<open>
  class GraphPropLayer(snt.AbstractModule):
      def __init__(self, node_state_dim, edge_hidden_sizes, node_hidden_sizes,
                   edge_net_init_scale=0.1, node_update_type='residual',
                   use_reverse_direction=True, reverse_dir_param_different=True,
                   layer_norm=False, name='graph-net'):
          self._node_state_dim = node_state_dim
          self._edge_hidden_sizes = edge_hidden_sizes[:]
          # output size is node_state_dim
          self._node_hidden_sizes = node_hidden_sizes[:] + [node_state_dim]
          self._edge_net_init_scale = edge_net_init_scale
          self._node_update_type = node_update_type
          self._use_reverse_direction = use_reverse_direction
          self._reverse_dir_param_different = reverse_dir_param_different
          self._layer_norm = layer_norm
  \<close>
  The constructor checks nothing. \<open>edge_net_init_scale\<close> only seeds the initial weights
  and is left out; the weights are the field \<open>params\<close>. The name of the module is
  \<open>graph-net\<close> unless the caller gives one; the only names given in the program are
  \<open>graph-prop-<layer_id>\<close>.
\<close>

datatype layer_name = GraphNet | GraphProp nat

record graph_prop_layer =
  scope_name :: layer_name
  node_state_dim :: nat
  edge_hidden_sizes :: "nat list"
  node_hidden_sizes :: "nat list"
  node_update_type :: string
  use_reverse_direction :: bool
  reverse_dir_param_different :: bool
  layer_norm :: bool
  params :: layer_params

definition GraphPropLayer_init ::
  "nat \<Rightarrow> nat list \<Rightarrow> nat list \<Rightarrow> string \<Rightarrow> bool \<Rightarrow> bool \<Rightarrow> bool \<Rightarrow> layer_params
     \<Rightarrow> graph_prop_layer" where
  "GraphPropLayer_init state_dim edge_sizes node_sizes update_type use_reverse reverse_different
       use_layer_norm weights =
     \<lparr> scope_name = GraphNet,
       node_state_dim = state_dim,
       edge_hidden_sizes = edge_sizes,
       node_hidden_sizes = node_sizes @ [state_dim],
       node_update_type = update_type,
       use_reverse_direction = use_reverse,
       reverse_dir_param_different = reverse_different,
       layer_norm = use_layer_norm,
       params = weights \<rparr>"

text \<open>
  \<^verbatim>\<open>
  def _compute_aggregated_messages(
          self, node_states, from_idx, to_idx, edge_features=None):
      self._message_net = snt.nets.MLP(self._edge_hidden_sizes, ..., name='message-mlp')
      aggregated_messages = graph_prop_once(
          node_states, from_idx, to_idx, self._message_net,
          aggregation_module=tf.unsorted_segment_sum, edge_features=edge_features)
      # optionally compute message vectors in the reverse direction
      if self._use_reverse_direction:
          if self._reverse_dir_param_different:
              self._reverse_message_net = snt.nets.MLP(
                  self._edge_hidden_sizes, ..., name='reverse-message-mlp')
          else:
              self._reverse_message_net = self._message_net
          reverse_aggregated_messages = graph_prop_once(
              node_states, to_idx, from_idx, self._reverse_message_net,
              aggregation_module=tf.unsorted_segment_sum, edge_features=edge_features)
          aggregated_messages += reverse_aggregated_messages
      if self._layer_norm:
          aggregated_messages = snt.LayerNorm()(aggregated_messages)
      return aggregated_messages
  \<close>
  The last element of \<open>edge_hidden_sizes\<close> is the size of the message vectors.
\<close>

definition compute_aggregated_messages ::
  "graph_prop_layer \<Rightarrow> mat \<Rightarrow> nat list \<Rightarrow> nat list \<Rightarrow> mat option \<Rightarrow> error + mat" where
  "compute_aggregated_messages layer node_states from_idx to_idx edge_features =
     (let message_net = message_mlp (params layer);
          d = last (edge_hidden_sizes layer)
      in case graph_prop_once d node_states from_idx to_idx message_net
                unsorted_segment_sum edge_features of
           Inl e \<Rightarrow> Inl e
         | Inr aggregated_messages \<Rightarrow>
        (case (if use_reverse_direction layer then
                 (let reverse_message_net =
                        (if reverse_dir_param_different layer
                         then reverse_message_mlp (params layer) else message_net)
                  in case graph_prop_once d node_states to_idx from_idx reverse_message_net
                            unsorted_segment_sum edge_features of
                       Inl e \<Rightarrow> Inl e
                     | Inr reverse_aggregated_messages \<Rightarrow>
                         Inr (map2 vadd aggregated_messages reverse_aggregated_messages))
               else Inr aggregated_messages) of
           Inl e \<Rightarrow> Inl e
         | Inr aggregated_messages \<Rightarrow>
             if layer_norm layer then
               Inr (map (LayerNorm (message_layer_norm (params layer))) aggregated_messages)
             else Inr aggregated_messages))"

text \<open>
  \<^verbatim>\<open>
  def _compute_node_update(self, node_states, node_state_inputs, node_features=None):
      if self._node_update_type in ('mlp', 'residual'):
          node_state_inputs.append(node_states)
      if node_features is not None:
          node_state_inputs.append(node_features)
      if len(node_state_inputs) == 1:
          node_state_inputs = node_state_inputs[0]
      else:
          node_state_inputs = tf.concat(node_state_inputs, axis=-1)
      if self._node_update_type == 'gru':
          _, new_node_states = snt.GRU(self._node_state_dim)(
              node_state_inputs, node_states)
          return new_node_states
      else:
          mlp_output = snt.nets.MLP(
              self._node_hidden_sizes, name='node-mlp')(node_state_inputs)
          if self._layer_norm:
              mlp_output = snt.LayerNorm()(mlp_output)
          if self._node_update_type == 'mlp':
              return mlp_output
          elif self._node_update_type == 'residual':
              return node_states + mlp_output
          else:
              raise ValueError('Unknown node update type %s' % self._node_update_type)
  \<close>
\<close>

definition compute_node_update ::
  "graph_prop_layer \<Rightarrow> mat \<Rightarrow> mat list \<Rightarrow> mat option \<Rightarrow> error + mat" where
  "compute_node_update layer node_states node_state_inputs node_features =
     (let inputs1 =
            (if node_update_type layer = ''mlp'' \<or> node_update_type layer = ''residual''
             then node_state_inputs @ [node_states] else node_state_inputs);
          inputs2 = (case node_features of None \<Rightarrow> inputs1 | Some nf \<Rightarrow> inputs1 @ [nf])
      in case (if length inputs2 = 1 then Inr (inputs2 ! 0) else concat_last inputs2) of
           Inl e \<Rightarrow> Inl e
         | Inr inputs \<Rightarrow>
             if node_update_type layer = ''gru'' then
               Inr (map2 (node_gru (params layer)) inputs node_states)
             else
               (let mlp_output = map (node_mlp (params layer)) inputs;
                    mlp_output =
                      (if layer_norm layer
                       then map (LayerNorm (node_layer_norm (params layer))) mlp_output
                       else mlp_output)
                in if node_update_type layer = ''mlp'' then Inr mlp_output
                   else if node_update_type layer = ''residual'' then
                     Inr (map2 vadd node_states mlp_output)
                   else Inl (ValueError (''Unknown node update type ''
                               @ node_update_type layer))))"

text \<open>
  \<^verbatim>\<open>
  def _build(self, node_states, from_idx, to_idx, edge_features=None, node_features=None):
      aggregated_messages = self._compute_aggregated_messages(
          node_states, from_idx, to_idx, edge_features=edge_features)
      return self._compute_node_update(node_states, [aggregated_messages],
                                       node_features=node_features)
  \<close>
\<close>

definition GraphPropLayer_build ::
  "graph_prop_layer \<Rightarrow> mat \<Rightarrow> nat list \<Rightarrow> nat list \<Rightarrow> mat option \<Rightarrow> mat option
     \<Rightarrow> error + mat" where
  "GraphPropLayer_build layer node_states from_idx to_idx edge_features node_features =
     (case compute_aggregated_messages layer node_states from_idx to_idx edge_features of
        Inl e \<Rightarrow> Inl e
      | Inr aggregated_messages \<Rightarrow>
          compute_node_update layer node_states [aggregated_messages] node_features)"

section \<open>Cross-graph attention\<close>

text \<open>
  \<open>tf.nn.softmax(a, axis=1)\<close> normalises each row of \<open>a\<close>, \<open>tf.nn.softmax(a, axis=0)\<close>
  each column; \<open>m\<close> is the number of columns of \<open>a\<close>.
\<close>

definition softmax_vec :: "vec \<Rightarrow> vec" where
  "softmax_vec r = map (\<lambda>v. exp v / sum_list (map exp r)) r"

definition softmax_axis1 :: "mat \<Rightarrow> mat" where
  "softmax_axis1 a = map softmax_vec a"

definition softmax_axis0 :: "nat \<Rightarrow> mat \<Rightarrow> mat" where
  "softmax_axis0 m a = transpose_mat (length a) (map softmax_vec (transpose_mat m a))"

text \<open>
  \<^verbatim>\<open>
  def compute_cross_attention(x, y, sim):
      a = sim(x, y)
      a_x = tf.nn.softmax(a, axis=1)  # i->j
      a_y = tf.nn.softmax(a, axis=0)  # j->i
      attention_x = tf.matmul(a_x, y)
      attention_y = tf.matmul(a_y, x, transpose_a=True)
      return attention_x, attention_y
  \<close>
  \<open>x\<close> is \<open>[n, d]\<close>, \<open>y\<close> is \<open>[m, d]\<close> and \<open>a\<close> is \<open>[n, m]\<close>.
\<close>

definition compute_cross_attention ::
  "nat \<Rightarrow> mat \<Rightarrow> mat \<Rightarrow> (mat \<Rightarrow> mat \<Rightarrow> mat) \<Rightarrow> mat \<times> mat" where
  "compute_cross_attention d x y sim =
     (let a = sim x y;
          a_x = softmax_axis1 a;
          a_y = softmax_axis0 (length y) a;
          attention_x = matmul d a_x y;
          attention_y = matmul d (transpose_mat (length y) a_y) x
      in (attention_x, attention_y))"

text \<open>
  \<open>tf.dynamic_partition(data, partitions, n)\<close>: the list of the \<open>n\<close> blocks of rows,
  block \<open>g\<close> holding the rows tagged \<open>g\<close> in their order; a tag outside \<open>[0, n)\<close> is
  an error. \<open>tf.concat(results, axis=0)\<close> puts tensors one under the other and rejects
  an empty list.
\<close>

definition dynamic_partition :: "mat \<Rightarrow> nat list \<Rightarrow> nat \<Rightarrow> error + mat list" where
  "dynamic_partition data partitions n =
     (if segment_ids_ok data partitions n
      then Inr (map (segment_rows data partitions) [0..<n])
      else Inl (InvalidArgumentError ''partitions out of range''))"

definition concat_first :: "mat list \<Rightarrow> error + mat" where
  "concat_first results =
     (if results = [] then Inl (ValueError ''concat of an empty list'')
      else Inr (concat results))"

text \<open>
  \<^verbatim>\<open>
  def batch_block_pair_attention(data, block_idx, n_blocks, similarity='dotproduct'):
      if not isinstance(n_blocks, int):
          raise ValueError('n_blocks (%s) has to be an integer.' % str(n_blocks))
      if n_blocks % 2 != 0:
          raise ValueError('n_blocks (%d) must be a multiple of 2.' % n_blocks)
      sim = get_pairwise_similarity(similarity)
      results = []
      partitions = tf.dynamic_partition(data, block_idx, n_blocks)
      for i in range(0, n_blocks, 2):
          x = partitions[i]
          y = partitions[i + 1]
          attention_x, attention_y = compute_cross_attention(x, y, sim)
          results.append(attention_x)
          results.append(attention_y)
      results = tf.concat(results, axis=0)
      # the shape of the first dimension is lost after concat, reset it back
      results.set_shape(data.shape)
      return results
  \<close>
  \<open>n_blocks\<close> is a \<open>nat\<close>, so the first check has no branch; the second message is
  given without the number. \<open>pair_results\<close> is the body of the loop for one \<open>i\<close>.
\<close>

definition pair_results :: "nat \<Rightarrow> mat list \<Rightarrow> (mat \<Rightarrow> mat \<Rightarrow> mat) \<Rightarrow> nat \<Rightarrow> mat list" where
  "pair_results d partitions sim i =
     (let x = partitions ! i;
          y = partitions ! (i + 1);
          (attention_x, attention_y) = compute_cross_attention d x y sim
      in [attention_x, attention_y])"

definition batch_block_pair_attention ::
  "nat \<Rightarrow> mat \<Rightarrow> nat list \<Rightarrow> nat \<Rightarrow> string \<Rightarrow> error + mat" where
  "batch_block_pair_attention d data block_idx n_blocks similarity =
     (if n_blocks mod 2 \<noteq> 0 then Inl (ValueError ''n_blocks must be a multiple of 2.'')
      else case get_pairwise_similarity similarity of
        Inl e \<Rightarrow> Inl e
      | Inr sim \<Rightarrow>
     (case dynamic_partition data block_idx n_blocks of
        Inl e \<Rightarrow> Inl e
      | Inr partitions \<Rightarrow>
          concat_first
            (concat (map (pair_results d partitions sim)
                       (map (\<lambda>k. 2 * k) [0..<n_blocks div 2])))))"

text \<open>
  \<^verbatim>\<open>
  class GraphPropMatchingLayer(GraphPropLayer):
      def _build(self, node_states, from_idx, to_idx, graph_idx, n_graphs,
                 similarity='dotproduct', edge_features=None, node_features=None):
          aggregated_messages = self._compute_aggregated_messages(
              node_states, from_idx, to_idx, edge_features=edge_features)
          # new stuff here
          cross_graph_attention = batch_block_pair_attention(
              node_states, graph_idx, n_graphs, similarity=similarity)
          attention_input = node_states - cross_graph_attention
          return self._compute_node_update(node_states,
                                           [aggregated_messages, attention_input],
                                           node_features=node_features)
  \<close>
  The node states have width \<open>node_state_dim\<close>. \<open>attention_input\<close> is the tensor of
  that name, \<open>node_states - cross_graph_attention\<close>, or the exception of the attention.
\<close>

definition attention_input ::
  "graph_prop_layer \<Rightarrow> mat \<Rightarrow> nat list \<Rightarrow> nat \<Rightarrow> string \<Rightarrow> error + mat" where
  "attention_input layer node_states graph_idx n_graphs similarity =
     (case batch_block_pair_attention (node_state_dim layer) node_states graph_idx n_graphs
             similarity of
        Inl e \<Rightarrow> Inl e
      | Inr cross_graph_attention \<Rightarrow> Inr (map2 vsub node_states cross_graph_attention))"

definition GraphPropMatchingLayer_build ::
  "graph_prop_layer \<Rightarrow> mat \<Rightarrow> nat list \<Rightarrow> nat list \<Rightarrow> nat list \<Rightarrow> nat \<Rightarrow> string
     \<Rightarrow> mat option \<Rightarrow> mat option \<Rightarrow> error + mat" where
  "GraphPropMatchingLayer_build layer node_states from_idx to_idx graph_idx n_graphs
       similarity edge_features node_features =
     (case compute_aggregated_messages layer node_states from_idx to_idx edge_features of
        Inl e \<Rightarrow> Inl e
      | Inr aggregated_messages \<Rightarrow>
     (case attention_input layer node_states graph_idx n_graphs similarity of
        Inl e \<Rightarrow> Inl e
      | Inr att \<Rightarrow>
          compute_node_update layer node_states [aggregated_messages, att] node_features))"

section \<open>The attention of the specification\<close>

text \<open>
  The specification's words for one attending pair with blocks \<open>x\<close> (\<open>n\<close> rows) and \<open>y\<close>
  (\<open>m\<close> rows) and similarity matrix \<open>S = sim x y\<close>: the weight \<open>a\<^sub>p\<^sub>\<rightarrow>\<^sub>q\<close> is the softmax of
  \<open>S\<close> over \<open>q\<close>, the weight \<open>a\<^sub>q\<^sub>\<rightarrow>\<^sub>p\<close> the softmax over \<open>p\<close>;
  \<open>attention_x\<^sub>p\<close> is the sum over \<open>q\<close> of \<open>a\<^sub>p\<^sub>\<rightarrow>\<^sub>q y\<^sub>q\<close> and \<open>attention_y\<^sub>q\<close> the sum over
  \<open>p\<close> of \<open>a\<^sub>q\<^sub>\<rightarrow>\<^sub>p x\<^sub>p\<close>. The last argument \<open>j\<close> selects a component of the vector.
\<close>

definition spec_attention_weight_x :: "mat \<Rightarrow> nat \<Rightarrow> nat \<Rightarrow> nat \<Rightarrow> real" where
  "spec_attention_weight_x S m p q = exp (S ! p ! q) / (\<Sum>q'<m. exp (S ! p ! q'))"

definition spec_attention_weight_y :: "mat \<Rightarrow> nat \<Rightarrow> nat \<Rightarrow> nat \<Rightarrow> real" where
  "spec_attention_weight_y S n p q = exp (S ! p ! q) / (\<Sum>p'<n. exp (S ! p' ! q))"

definition spec_attention_x :: "mat \<Rightarrow> mat \<Rightarrow> (mat \<Rightarrow> mat \<Rightarrow> mat) \<Rightarrow> nat \<Rightarrow> nat \<Rightarrow> real" where
  "spec_attention_x x y sim p j =
     (\<Sum>q<length y. spec_attention_weight_x (sim x y) (length y) p q * y ! q ! j)"

definition spec_attention_y :: "mat \<Rightarrow> mat \<Rightarrow> (mat \<Rightarrow> mat \<Rightarrow> mat) \<Rightarrow> nat \<Rightarrow> nat \<Rightarrow> real" where
  "spec_attention_y x y sim q j =
     (\<Sum>p<length x. spec_attention_weight_y (sim x y) (length x) p q * x ! p ! j)"

text \<open>
  The rows that \<open>batch_block_pair_attention\<close> appends for block \<open>g\<close>: the first result
  of \<open>compute_cross_attention\<close> on the pair for an even \<open>g\<close>, the second for an odd one.
\<close>

definition block_attention ::
  "nat \<Rightarrow> mat \<Rightarrow> nat list \<Rightarrow> (mat \<Rightarrow> mat \<Rightarrow> mat) \<Rightarrow> nat \<Rightarrow> mat" where
  "block_attention d data ids sim g =
     (if even g
      then fst (compute_cross_attention d (segment_rows data ids g)
                  (segment_rows data ids (g + 1)) sim)
      else snd (compute_cross_attention d (segment_rows data ids (g - 1))
                  (segment_rows data ids g) sim))"

section \<open>Graph encoder\<close>

text \<open>
  The constructor of \<open>snt.nets.MLP\<close> raises \<open>ValueError\<close> for an empty list of output
  sizes; \<open>mlp_rows\<close> is the construction of a network with the given sizes followed by
  its application to every row.
  \<^verbatim>\<open>
  class GraphEncoder(snt.AbstractModule):
      def __init__(self, node_hidden_sizes=None, edge_hidden_sizes=None, ...):
          # this also handles the case of an empty list
          self._node_hidden_sizes = node_hidden_sizes if node_hidden_sizes else None
          self._edge_hidden_sizes = edge_hidden_sizes

      def _build(self, node_features, edge_features=None):
          if self._node_hidden_sizes is None:
              node_outputs = node_features
          else:
              node_outputs = snt.nets.MLP(
                  self._node_hidden_sizes, name='node-feature-mlp')(node_features)
          if edge_features is None or self._edge_hidden_sizes is None:
              edge_outputs = edge_features
          else:
              edge_outputs = snt.nets.MLP(
                  self._edge_hidden_sizes, name='edge-feature-mlp')(edge_features)
          return node_outputs, edge_outputs
  \<close>
\<close>

definition mlp_rows :: "nat list \<Rightarrow> (vec \<Rightarrow> vec) \<Rightarrow> mat \<Rightarrow> error + mat" where
  "mlp_rows sizes net x =
     (if sizes = [] then Inl (ValueError ''output_sizes must not be empty'')
      else Inr (map net x))"

record graph_encoder =
  enc_node_hidden_sizes :: "nat list option"
  enc_edge_hidden_sizes :: "nat list option"
  node_feature_mlp :: "vec \<Rightarrow> vec"
  edge_feature_mlp :: "vec \<Rightarrow> vec"

definition GraphEncoder_init ::
  "nat list option \<Rightarrow> nat list option \<Rightarrow> (vec \<Rightarrow> vec) \<Rightarrow> (vec \<Rightarrow> vec) \<Rightarrow> graph_encoder" where
  "GraphEncoder_init node_sizes edge_sizes n_mlp e_mlp =
     \<lparr> enc_node_hidden_sizes =
         (case node_sizes of None \<Rightarrow> None | Some [] \<Rightarrow> None | Some (s # ss) \<Rightarrow> Some (s # ss)),
       enc_edge_hidden_sizes = edge_sizes,
       node_feature_mlp = n_mlp,
       edge_feature_mlp = e_mlp \<rparr>"

definition GraphEncoder_build ::
  "graph_encoder \<Rightarrow> mat \<Rightarrow> mat option \<Rightarrow> error + (mat \<times> mat option)" where
  "GraphEncoder_build enc node_features edge_features =
     (case (case enc_node_hidden_sizes enc of
              None \<Rightarrow> Inr node_features
            | Some sizes \<Rightarrow> mlp_rows sizes (node_feature_mlp enc) node_features) of
        Inl e \<Rightarrow> Inl e
      | Inr node_outputs \<Rightarrow>
     (case (case edge_features of
              None \<Rightarrow> Inr None
            | Some ef \<Rightarrow>
                (case enc_edge_hidden_sizes enc of
                   None \<Rightarrow> Inr (Some ef)
                 | Some sizes \<Rightarrow>
                     (case mlp_rows sizes (edge_feature_mlp enc) ef of
                        Inl e \<Rightarrow> Inl e
                      | Inr outputs \<Rightarrow> Inr (Some outputs)))) of
        Inl e \<Rightarrow> Inl e
      | Inr edge_outputs \<Rightarrow> Inr (node_outputs, edge_outputs)))"

section \<open>Graph embedding net and graph matching net\<close>

text \<open>
  \<open>GraphMatchingNet\<close> is \<open>GraphEmbeddingNet\<close> with \<open>_layer_class\<close> set to
  \<open>GraphPropMatchingLayer\<close>, one more field \<open>_similarity\<close> and an \<open>_apply_layer\<close> that
  passes \<open>graph_idx\<close>, \<open>n_graphs\<close> and the similarity on. One record models both; the
  field \<open>layer_class\<close> tells them apart.
  \<^verbatim>\<open>
  def __init__(self, encoder, aggregator, node_state_dim, edge_hidden_sizes,
               node_hidden_sizes, n_prop_layers, share_prop_params=False,
               edge_net_init_scale=0.1, node_update_type='residual',
               use_reverse_direction=True, reverse_dir_param_different=True,
               layer_norm=False, name='graph-embedding-net'):
      self._encoder = encoder
      self._aggregator = aggregator
      self._node_state_dim = node_state_dim
      ...
      self._n_prop_layers = n_prop_layers
      self._share_prop_params = share_prop_params
      ...
      self._prop_layers = []
      self._layer_class = GraphPropLayer
  \<close>
  The attribute \<open>_layer_outputs\<close> does not exist before the first forward pass: it is
  \<open>None\<close> then.

  The variables of the module. A Sonnet module creates its variables while it is
  connected for the first time; every later connection runs with variable reuse switched
  on, and \<open>tf.get_variable\<close> then raises \<open>ValueError\<close> for a variable that does not
  exist. The variables of a layer are found by the scope name of the layer,
  \<open>graph-prop-<layer_id>\<close>: a layer object constructed in a later call under a name that
  has variables shares them. \<open>layer_variables\<close> is \<open>None\<close> until the first connection and
  then holds the names of the layers whose variables exist; \<open>layer_weights k\<close> are the
  weights in the variables of \<open>graph-prop-k\<close>.
\<close>

datatype layer_class = GraphPropLayer | GraphPropMatchingLayer

record graph_embedding_net =
  net_encoder :: graph_encoder
  net_aggregator :: graph_aggregator
  net_node_state_dim :: nat
  net_edge_hidden_sizes :: "nat list"
  net_node_hidden_sizes :: "nat list"
  n_prop_layers :: int
  share_prop_params :: bool
  net_node_update_type :: string
  net_use_reverse_direction :: bool
  net_reverse_dir_param_different :: bool
  net_layer_norm :: bool
  prop_layers :: "graph_prop_layer list"
  layer_class :: layer_class
  net_similarity :: string
  layer_outputs :: "mat list option"
  layer_variables :: "layer_name list option"
  layer_weights :: "nat \<Rightarrow> layer_params"

record net_config =
  cfg_node_state_dim :: nat
  cfg_edge_hidden_sizes :: "nat list"
  cfg_node_hidden_sizes :: "nat list"
  cfg_n_prop_layers :: int
  cfg_share_prop_params :: bool
  cfg_node_update_type :: string
  cfg_use_reverse_direction :: bool
  cfg_reverse_dir_param_different :: bool
  cfg_layer_norm :: bool

definition GraphEmbeddingNet_init ::
  "graph_encoder \<Rightarrow> graph_aggregator \<Rightarrow> net_config \<Rightarrow> (nat \<Rightarrow> layer_params)
     \<Rightarrow> graph_embedding_net" where
  "GraphEmbeddingNet_init encoder aggregator c weights =
     \<lparr> net_encoder = encoder,
       net_aggregator = aggregator,
       net_node_state_dim = cfg_node_state_dim c,
       net_edge_hidden_sizes = cfg_edge_hidden_sizes c,
       net_node_hidden_sizes = cfg_node_hidden_sizes c,
       n_prop_layers = cfg_n_prop_layers c,
       share_prop_params = cfg_share_prop_params c,
       net_node_update_type = cfg_node_update_type c,
       net_use_reverse_direction = cfg_use_reverse_direction c,
       net_reverse_dir_param_different = cfg_reverse_dir_param_different c,
       net_layer_norm = cfg_layer_norm c,
       prop_layers = [],
       layer_class = GraphPropLayer,
       net_similarity = ''dotproduct'',
       layer_outputs = None,
       layer_variables = None,
       layer_weights = weights \<rparr>"

definition GraphMatchingNet_init ::
  "graph_encoder \<Rightarrow> graph_aggregator \<Rightarrow> net_config \<Rightarrow> string \<Rightarrow> (nat \<Rightarrow> layer_params)
     \<Rightarrow> graph_embedding_net" where
  "GraphMatchingNet_init encoder aggregator c sim_name weights =
     (GraphEmbeddingNet_init encoder aggregator c weights)
       \<lparr> net_similarity := sim_name, layer_class := GraphPropMatchingLayer \<rparr>"

text \<open>
  \<^verbatim>\<open>
  def _build_layer(self, layer_id):
      return self._layer_class(
          self._node_state_dim, self._edge_hidden_sizes, self._node_hidden_sizes,
          edge_net_init_scale=self._edge_net_init_scale,
          node_update_type=self._node_update_type,
          use_reverse_direction=self._use_reverse_direction,
          reverse_dir_param_different=self._reverse_dir_param_different,
          layer_norm=self._layer_norm,
          name='graph-prop-%d' % layer_id)
  \<close>
\<close>

definition build_layer :: "graph_embedding_net \<Rightarrow> nat \<Rightarrow> graph_prop_layer" where
  "build_layer net layer_id =
     (GraphPropLayer_init (net_node_state_dim net) (net_edge_hidden_sizes net)
        (net_node_hidden_sizes net) (net_node_update_type net)
        (net_use_reverse_direction net) (net_reverse_dir_param_different net)
        (net_layer_norm net) (layer_weights net layer_id))
       \<lparr> scope_name := GraphProp layer_id \<rparr>"

text \<open>
  The loop that fills \<open>_prop_layers\<close>, over the values of \<open>range(self._n_prop_layers)\<close>
  that are left; it appends to the list as it stands:
  \<^verbatim>\<open>
  for i in range(self._n_prop_layers):
      if i == 0 or not self._share_prop_params:
          layer = self._build_layer(i)
      else:
          layer = self._prop_layers[0]
      self._prop_layers.append(layer)
  \<close>
\<close>

fun build_prop_layers ::
  "graph_embedding_net \<Rightarrow> nat list \<Rightarrow> graph_prop_layer list \<Rightarrow> error + graph_prop_layer list" where
  "build_prop_layers net [] layers = Inr layers"
| "build_prop_layers net (i # rest) layers =
     (if i = 0 \<or> \<not> share_prop_params net then
        build_prop_layers net rest (layers @ [build_layer net i])
      else
        (case layers of
           [] \<Rightarrow> Inl (IndexError ''list index out of range'')
         | first # _ \<Rightarrow> build_prop_layers net rest (layers @ [first])))"

text \<open>
  \<^verbatim>\<open>
  # GraphEmbeddingNet
  def _apply_layer(self, layer, node_states, from_idx, to_idx, graph_idx, n_graphs,
                   edge_features):
      del graph_idx, n_graphs
      return layer(node_states, from_idx, to_idx, edge_features=edge_features)

  # GraphMatchingNet
  def _apply_layer(self, layer, node_states, from_idx, to_idx, graph_idx, n_graphs,
                   edge_features):
      return layer(node_states, from_idx, to_idx, graph_idx, n_graphs,
                   similarity=self._similarity, edge_features=edge_features)
  \<close>
  Calling a layer connects it: once the net has been connected before, the variables of
  the layer must exist. The message of TensorFlow begins with the name of the variable
  (\<open>Variable graph-prop-2/... does not exist, or was not created with
  tf.get_variable()\<close>); it is given without the name.
\<close>

definition variables_exist :: "graph_embedding_net \<Rightarrow> graph_prop_layer \<Rightarrow> bool" where
  "variables_exist net layer =
     (case layer_variables net of
        None \<Rightarrow> True
      | Some names \<Rightarrow> scope_name layer \<in> set names)"

definition apply_layer ::
  "graph_embedding_net \<Rightarrow> graph_prop_layer \<Rightarrow> mat \<Rightarrow> nat list \<Rightarrow> nat list \<Rightarrow> nat list \<Rightarrow> nat
     \<Rightarrow> mat option \<Rightarrow> error + mat" where
  "apply_layer net layer node_states from_idx to_idx graph_idx n_graphs edge_features =
     (if \<not> variables_exist net layer then
        Inl (ValueError ''Variable does not exist, or was not created with tf.get_variable()'')
      else case layer_class net of
        GraphPropLayer \<Rightarrow>
          GraphPropLayer_build layer node_states from_idx to_idx edge_features None
      | GraphPropMatchingLayer \<Rightarrow>
          GraphPropMatchingLayer_build layer node_states from_idx to_idx graph_idx n_graphs
            (net_similarity net) edge_features None)"

text \<open>
  The loop over \<open>self._prop_layers\<close> of the forward pass; \<open>outs\<close> is \<open>layer_outputs\<close>:
  \<^verbatim>\<open>
  layer_outputs = [node_states]
  for layer in self._prop_layers:
      node_states = self._apply_layer(
          layer, node_states, from_idx, to_idx, graph_idx, n_graphs, edge_features)
      layer_outputs.append(node_states)
  \<close>
\<close>

fun apply_layers ::
  "graph_embedding_net \<Rightarrow> graph_prop_layer list \<Rightarrow> mat \<Rightarrow> nat list \<Rightarrow> nat list \<Rightarrow> nat list
     \<Rightarrow> nat \<Rightarrow> mat option \<Rightarrow> mat list \<Rightarrow> error + (mat \<times> mat list)" where
  "apply_layers net [] node_states from_idx to_idx graph_idx n_graphs edge_features outs =
     Inr (node_states, outs)"
| "apply_layers net (layer # rest) node_states from_idx to_idx graph_idx n_graphs
       edge_features outs =
     (case apply_layer net layer node_states from_idx to_idx graph_idx n_graphs
             edge_features of
        Inl e \<Rightarrow> Inl e
      | Inr new_states \<Rightarrow>
          apply_layers net rest new_states from_idx to_idx graph_idx n_graphs edge_features
            (outs @ [new_states]))"

text \<open>
  \<^verbatim>\<open>
  def _build(self, node_features, edge_features, from_idx, to_idx, graph_idx, n_graphs):
      if len(self._prop_layers) < self._n_prop_layers:
          # build the layers
          for i in range(self._n_prop_layers):
              ...
      node_features, edge_features = self._encoder(node_features, edge_features)
      node_states = node_features
      layer_outputs = [node_states]
      for layer in self._prop_layers:
          ...
      # these tensors may be used e.g. for visualization
      self._layer_outputs = layer_outputs
      return self._aggregator(node_states, graph_idx, n_graphs)
  \<close>
  The forward pass returns the graph vectors and the object as the call leaves it; a
  first connection leaves the variables of the layers it applied. The state of the
  object after an exception is not modelled.
\<close>

definition GraphEmbeddingNet_build ::
  "graph_embedding_net \<Rightarrow> mat \<Rightarrow> mat option \<Rightarrow> nat list \<Rightarrow> nat list \<Rightarrow> nat list \<Rightarrow> nat
     \<Rightarrow> error + (graph_embedding_net \<times> mat)" where
  "GraphEmbeddingNet_build net node_features edge_features from_idx to_idx graph_idx n_graphs =
     (case (if int (length (prop_layers net)) < n_prop_layers net
            then build_prop_layers net [0..<nat (n_prop_layers net)] (prop_layers net)
            else Inr (prop_layers net)) of
        Inl e \<Rightarrow> Inl e
      | Inr layers \<Rightarrow>
     (case GraphEncoder_build (net_encoder net) node_features edge_features of
        Inl e \<Rightarrow> Inl e
      | Inr (node_states, edge_features') \<Rightarrow>
     (case apply_layers net layers node_states from_idx to_idx graph_idx n_graphs
             edge_features' [node_states] of
        Inl e \<Rightarrow> Inl e
      | Inr (final_states, outs) \<Rightarrow>
     (case GraphAggregator_build (net_aggregator net) final_states graph_idx n_graphs of
        Inl e \<Rightarrow> Inl e
      | Inr graph_states \<Rightarrow>
          Inr (net \<lparr> prop_layers := layers,
                     layer_outputs := Some outs,
                     layer_variables :=
                       (case layer_variables net of
                          None \<Rightarrow> Some (map scope_name layers)
                        | Some names \<Rightarrow> Some names) \<rparr>,
               graph_states)))))"

text \<open>
  \<^verbatim>\<open>
  def reset_n_prop_layers(self, n_prop_layers):
      """Set n_prop_layers to the provided new value.

      This allows us to train with certain number of propagation layers and
      evaluate with a different number of propagation layers.

      This only works if n_prop_layers is smaller than the number used for
      training, or when share_prop_params is set to True, in which case this can
      be arbitrarily large.
      """
      self._n_prop_layers = n_prop_layers

  def get_layer_outputs(self):
      if hasattr(self, '_layer_outputs'):
          return self._layer_outputs
      else:
          raise ValueError('No layer outputs available.')
  \<close>
  Like every method here, \<open>reset_n_prop_layers\<close> returns the object or an exception; its
  body has no statement that raises.
\<close>

definition reset_n_prop_layers :: "int \<Rightarrow> graph_embedding_net \<Rightarrow> error + graph_embedding_net" where
  "reset_n_prop_layers new_n_prop_layers net = Inr (net \<lparr> n_prop_layers := new_n_prop_layers \<rparr>)"

definition get_layer_outputs :: "graph_embedding_net \<Rightarrow> error + mat list" where
  "get_layer_outputs net =
     (case layer_outputs net of
        None \<Rightarrow> Inl (ValueError ''No layer outputs available.'')
      | Some outs \<Rightarrow> Inr outs)"

section \<open>Building the model from the configuration\<close>

text \<open>
  \<^verbatim>\<open>
  def build_model(config, node_feature_dim, edge_feature_dim):
      encoder = GraphEncoder(**config['encoder'])
      aggregator = GraphAggregator(**config['aggregator'])
      if config['model_type'] == 'embedding':
          model = GraphEmbeddingNet(
              encoder, aggregator, **config['graph_embedding_net'])
      elif config['model_type'] == 'matching':
          model = GraphMatchingNet(
              encoder, aggregator, **config['graph_matching_net'])
      else:
          raise ValueError('Unknown model type: %s' % config['model_type'])

      training_n_graphs_in_batch = config['training']['batch_size']
      if config['training']['mode'] == 'pair':
          training_n_graphs_in_batch *= 2
      elif config['training']['mode'] == 'triplet':
          training_n_graphs_in_batch *= 4
      else:
          raise ValueError('Unknown training mode: %s' % config['training']['mode'])

      placeholders = build_placeholders(node_feature_dim, edge_feature_dim)

      # training
      model_inputs = placeholders.copy()
      del model_inputs['labels']
      model_inputs['n_graphs'] = training_n_graphs_in_batch
      graph_vectors = model(**model_inputs)

      if config['training']['mode'] == 'pair':
          x, y = reshape_and_split_tensor(graph_vectors, 2)
          loss = pairwise_loss(x, y, placeholders['labels'],
                               loss_type=config['training']['loss'],
                               margin=config['training']['margin'])
          ...
      else:
          x_1, y, x_2, z = reshape_and_split_tensor(graph_vectors, 4)
          loss = triplet_loss(x_1, y, x_2, z,
                              loss_type=config['training']['loss'],
                              margin=config['training']['margin'])
          ...
      # evaluation
      model_inputs['n_graphs'] = config['evaluation']['batch_size'] * 2
      eval_pairs = model(**model_inputs)
      ...
      model_inputs['n_graphs'] = config['evaluation']['batch_size'] * 4
      eval_triplets = model(**model_inputs)
      ...
      return {...}, placeholders, model
  \<close>
  \<open>build_model\<close> builds the computation graph: it connects the model three times to
  placeholders, which runs the Python code of \<open>_build\<close> on tensors that have no values
  yet. No session runs in it, so nothing is computed before it returns. The exceptions
  of \<open>_build\<close> that depend on values (an index or a tag out of range) cannot occur then,
  and the others occur exactly as in a forward pass; \<open>connect_model\<close> therefore is the
  forward pass on the batch without nodes and edges, on which the first kind cannot
  occur either. The losses are built from the graph vectors in the same way; of them
  only the dispatch on the loss type can raise. The metrics and the optimiser are not
  represented. The result is the model as \<open>build_model\<close> leaves it and the number of
  graphs of a training batch; the learned networks come as the argument \<open>weights\<close>.
\<close>

record model_config =
  cfg_encoder_node_hidden_sizes :: "nat list option"
  cfg_encoder_edge_hidden_sizes :: "nat list option"
  cfg_aggregator_node_hidden_sizes :: "nat list"
  cfg_aggregator_graph_transform_sizes :: "nat list option"
  cfg_aggregator_gated :: bool
  cfg_aggregator_aggregation_type :: string
  cfg_graph_embedding_net :: net_config
  cfg_graph_matching_net :: net_config
  cfg_graph_matching_net_similarity :: string
  cfg_model_type :: string
  cfg_training_mode :: string
  cfg_training_batch_size :: nat
  cfg_training_loss :: string
  cfg_training_margin :: real
  cfg_evaluation_batch_size :: nat

record model_weights =
  w_node_feature_mlp :: "vec \<Rightarrow> vec"
  w_edge_feature_mlp :: "vec \<Rightarrow> vec"
  w_node_state_g_mlp :: "vec \<Rightarrow> vec"
  w_graph_transform_mlp :: "vec \<Rightarrow> vec"
  w_layers :: "nat \<Rightarrow> layer_params"

definition connect_model ::
  "graph_embedding_net \<Rightarrow> nat \<Rightarrow> error + (graph_embedding_net \<times> mat)" where
  "connect_model model n_graphs = GraphEmbeddingNet_build model [] (Some []) [] [] [] n_graphs"

definition build_model :: "model_config \<Rightarrow> model_weights \<Rightarrow> error + (graph_embedding_net \<times> nat)" where
  "build_model config weights =
     (let encoder = GraphEncoder_init (cfg_encoder_node_hidden_sizes config)
                      (cfg_encoder_edge_hidden_sizes config)
                      (w_node_feature_mlp weights) (w_edge_feature_mlp weights)
      in case GraphAggregator_init (cfg_aggregator_node_hidden_sizes config)
                (cfg_aggregator_graph_transform_sizes config) (cfg_aggregator_gated config)
                (cfg_aggregator_aggregation_type config)
                (w_node_state_g_mlp weights) (w_graph_transform_mlp weights) of
           Inl e \<Rightarrow> Inl e
         | Inr aggregator \<Rightarrow>
        (case (if cfg_model_type config = ''embedding'' then
                 Inr (GraphEmbeddingNet_init encoder aggregator
                        (cfg_graph_embedding_net config) (w_layers weights))
               else if cfg_model_type config = ''matching'' then
                 Inr (GraphMatchingNet_init encoder aggregator
                        (cfg_graph_matching_net config)
                        (cfg_graph_matching_net_similarity config) (w_layers weights))
               else Inl (ValueError (''Unknown model type: '' @ cfg_model_type config))) of
           Inl e \<Rightarrow> Inl e
         | Inr model \<Rightarrow>
        (case (if cfg_training_mode config = ''pair'' then
                 Inr (cfg_training_batch_size config * 2)
               else if cfg_training_mode config = ''triplet'' then
                 Inr (cfg_training_batch_size config * 4)
               else Inl (ValueError (''Unknown training mode: ''
                           @ cfg_training_mode config))) of
           Inl e \<Rightarrow> Inl e
         | Inr training_n_graphs_in_batch \<Rightarrow>
        (case connect_model model training_n_graphs_in_batch of
           Inl e \<Rightarrow> Inl e
         | Inr (model, graph_vectors) \<Rightarrow>
        (case (if cfg_training_mode config = ''pair'' then
                 pairwise_loss [] [] [] (cfg_training_loss config) (cfg_training_margin config)
               else
                 triplet_loss [] [] [] [] (cfg_training_loss config)
                   (cfg_training_margin config)) of
           Inl e \<Rightarrow> Inl e
         | Inr loss \<Rightarrow>
        (case connect_model model (cfg_evaluation_batch_size config * 2) of
           Inl e \<Rightarrow> Inl e
         | Inr (model, eval_pairs) \<Rightarrow>
        (case connect_model model (cfg_evaluation_batch_size config * 4) of
           Inl e \<Rightarrow> Inl e
         | Inr (model, eval_triplets) \<Rightarrow>
             Inr (model, training_n_graphs_in_batch))))))))"

section \<open>Example inputs\<close>

text \<open>
  The inputs of the closed theorems below: a configuration with one-dimensional node
  states and messages, no encoder networks, a plain aggregator without a final transform,
  pair training with the margin loss and batches of one pair, and weights whose message
  and node networks sum their input row. The arguments are the model variant, the number
  of propagation layers, the sharing flag, the update rule, the similarity of the
  matching variant and the aggregation type.
\<close>

definition example_net_config :: "int \<Rightarrow> bool \<Rightarrow> string \<Rightarrow> net_config" where
  "example_net_config n_layers shared update_type =
     \<lparr> cfg_node_state_dim = 1, cfg_edge_hidden_sizes = [1], cfg_node_hidden_sizes = [],
       cfg_n_prop_layers = n_layers, cfg_share_prop_params = shared,
       cfg_node_update_type = update_type, cfg_use_reverse_direction = True,
       cfg_reverse_dir_param_different = True, cfg_layer_norm = False \<rparr>"

definition example_config ::
  "string \<Rightarrow> int \<Rightarrow> bool \<Rightarrow> string \<Rightarrow> string \<Rightarrow> string \<Rightarrow> model_config" where
  "example_config model_type n_layers shared update_type sim_name agg_type =
     \<lparr> cfg_encoder_node_hidden_sizes = None, cfg_encoder_edge_hidden_sizes = None,
       cfg_aggregator_node_hidden_sizes = [1],
       cfg_aggregator_graph_transform_sizes = None,
       cfg_aggregator_gated = False, cfg_aggregator_aggregation_type = agg_type,
       cfg_graph_embedding_net = example_net_config n_layers shared update_type,
       cfg_graph_matching_net = example_net_config n_layers shared update_type,
       cfg_graph_matching_net_similarity = sim_name,
       cfg_model_type = model_type, cfg_training_mode = ''pair'',
       cfg_training_batch_size = 1, cfg_training_loss = ''margin'',
       cfg_training_margin = 1, cfg_evaluation_batch_size = 1 \<rparr>"

definition example_weights :: model_weights where
  "example_weights =
     \<lparr> w_node_feature_mlp = (\<lambda>r. r), w_edge_feature_mlp = (\<lambda>r. r),
       w_node_state_g_mlp = (\<lambda>r. r), w_graph_transform_mlp = (\<lambda>r. r),
       w_layers = (\<lambda>k.
         \<lparr> message_mlp = (\<lambda>r. [sum_list r]), reverse_message_mlp = (\<lambda>r. [sum_list r]),
           message_layer_norm = \<lparr> ln_gamma = [1], ln_beta = [0] \<rparr>,
           node_mlp = (\<lambda>r. [sum_list r]),
           node_layer_norm = \<lparr> ln_gamma = [1], ln_beta = [0] \<rparr>,
           node_gru = (\<lambda>x h. h) \<rparr>) \<rparr>"

section \<open>Facts about rows\<close>

lemma sum_list_map2_nth:
  "length a = length b \<Longrightarrow>
   sum_list (map2 f a b) = (\<Sum>j<length a. (f (a ! j) (b ! j) :: real))"
proof -
  assume len: "length a = length b"
  have "sum_list (map2 f a b) = (\<Sum>j = 0..<length (map2 f a b). map2 f a b ! j)"
    by (rule sum_list_sum_nth)
  also have "\<dots> = (\<Sum>j = 0..<length a. f (a ! j) (b ! j))"
    using len by (intro sum.cong) auto
  finally show ?thesis by (simp add: lessThan_atLeast0)
qed

lemma sum_list_map_nth:
  "sum_list (map f a) = (\<Sum>j<length a. (f (a ! j) :: real))"
proof -
  have "sum_list (map f a) = (\<Sum>j = 0..<length (map f a). map f a ! j)"
    by (rule sum_list_sum_nth)
  also have "\<dots> = (\<Sum>j = 0..<length a. f (a ! j))"
    by (intro sum.cong) auto
  finally show ?thesis by (simp add: lessThan_atLeast0)
qed

lemma euclidean_expansion_row:
  assumes "length a = length b"
  shows "2 * sum_list (vmul a b) - sum_list (vmul a a) - sum_list (vmul b b)
         = - (\<Sum>j<length a. (a ! j - b ! j) ^ 2)"
proof -
  have ab: "sum_list (vmul a b) = (\<Sum>j<length a. a ! j * b ! j)"
    unfolding vmul_def using assms by (rule sum_list_map2_nth)
  have aa: "sum_list (vmul a a) = (\<Sum>j<length a. a ! j * a ! j)"
    unfolding vmul_def by (rule sum_list_map2_nth) simp
  have bb: "sum_list (vmul b b) = (\<Sum>j<length a. b ! j * b ! j)"
    unfolding vmul_def using assms sum_list_map2_nth [of b b "(*)"] by simp
  have "2 * (\<Sum>j<length a. a ! j * b ! j) - (\<Sum>j<length a. a ! j * a ! j)
          - (\<Sum>j<length a. b ! j * b ! j)
        = (\<Sum>j<length a. 2 * (a ! j * b ! j) - a ! j * a ! j - b ! j * b ! j)"
    by (simp add: sum_subtractf sum_distrib_left)
  also have "\<dots> = (\<Sum>j<length a. - ((a ! j - b ! j) ^ 2))"
    by (intro sum.cong) (auto simp: power2_eq_square algebra_simps)
  also have "\<dots> = - (\<Sum>j<length a. (a ! j - b ! j) ^ 2)"
    by (simp add: sum_negf)
  finally show ?thesis by (simp add: ab aa bb)
qed

section \<open>Facts about float32 rounding\<close>

lemma round_half_even_of_int [simp]: "round_half_even (of_int n) = n"
  by (simp add: round_half_even_def)

lemma float32_round_0 [simp]: "float32_round 0 = 0"
  by (simp add: float32_round_def)

lemma float32_round_binade:
  assumes "2 powr of_int k \<le> \<bar>v\<bar>" and "\<bar>v\<bar> < 2 powr (of_int k + 1)" and "- 126 \<le> k"
  shows "float32_round v
           = of_int (round_half_even (v / 2 powr (of_int k - 23))) * 2 powr (of_int k - 23)"
proof -
  have pos: "0 < \<bar>v\<bar>"
    using assms(1) by (smt (verit) powr_gt_zero)
  have "\<lfloor>log 2 \<bar>v\<bar>\<rfloor> = k"
    using assms(1,2) pos by (simp add: floor_log_eq_powr_iff)
  then show ?thesis
    using assms(3) pos by (simp add: float32_round_def Let_def max_def)
qed

lemma float32_round_exact:
  assumes "2 powr of_int k \<le> \<bar>v\<bar>" and "\<bar>v\<bar> < 2 powr (of_int k + 1)" and "- 126 \<le> k"
    and "v / 2 powr (of_int k - 23) = of_int m"
  shows "float32_round v = v"
proof -
  have "float32_round v = of_int m * 2 powr (of_int k - 23)"
    using float32_round_binade [OF assms(1-3)] assms(4) by simp
  also have "\<dots> = v"
    using assms(4) by (simp add: field_simps)
  finally show ?thesis .
qed

lemma float32_round_of_int:
  assumes "\<bar>n\<bar> < 2 ^ 24"
  shows "float32_round (of_int n) = of_int n"
proof (cases "n = 0")
  case True
  then show ?thesis by simp
next
  case False
  define v :: real where "v = of_int n"
  define k where "k = \<lfloor>log 2 \<bar>v\<bar>\<rfloor>"
  have av: "\<bar>v\<bar> = of_int \<bar>n\<bar>"
    by (simp add: v_def)
  have "1 \<le> \<bar>n\<bar>" using False by simp
  then have ge1: "1 \<le> \<bar>v\<bar>"
    unfolding av by (simp only: of_int_1_le_iff)
  have "real_of_int \<bar>n\<bar> < real_of_int (2 ^ 24)"
    using assms by (simp only: of_int_less_iff)
  then have lt: "\<bar>v\<bar> < 2 ^ 24"
    unfolding av by simp
  have pos: "0 < \<bar>v\<bar>" using ge1 by simp
  have k0: "0 \<le> k"
    unfolding k_def using ge1 by simp
  have "log 2 \<bar>v\<bar> < 24"
    using lt pos by (simp add: log_less_iff)
  then have k23: "k \<le> 23"
    unfolding k_def by linarith
  have bin: "2 powr of_int k \<le> \<bar>v\<bar>" "\<bar>v\<bar> < 2 powr (of_int k + 1)"
    using floor_log_eq_powr_iff [where b = 2 and x = "\<bar>v\<bar>" and k = k] pos k_def by simp_all
  have "(2 :: real) powr (of_int k - 23) = 1 / 2 ^ nat (23 - k)"
  proof -
    have "real_of_int k - 23 = - real (nat (23 - k))"
      using k23 by simp
    then have "(2 :: real) powr (of_int k - 23) = 2 powr (- real (nat (23 - k)))"
      by (simp only:)
    also have "\<dots> = 1 / 2 ^ nat (23 - k)"
      by (simp add: powr_minus powr_realpow field_simps)
    finally show ?thesis .
  qed
  then have "v / 2 powr (of_int k - 23) = of_int (n * 2 ^ nat (23 - k))"
    by (simp add: v_def)
  from float32_round_exact [OF bin _ this] k0 show ?thesis
    by (simp add: v_def)
qed

lemma float32_round_Ints:
  assumes "v \<in> \<int>" and "\<bar>v\<bar> < 2 ^ 24"
  shows "float32_round v = v"
proof -
  from assms(1) obtain n where n: "v = of_int n" by (rule Ints_cases)
  have "real_of_int \<bar>n\<bar> < real_of_int (2 ^ 24)"
    using assms(2) unfolding n by simp
  then have "\<bar>n\<bar> < 2 ^ 24"
    by (simp only: of_int_less_iff)
  then show ?thesis
    unfolding n by (rule float32_round_of_int)
qed

lemma reduce_products_float32_exact:
  assumes "\<forall>(u, v) \<in> set ps. u \<in> \<int> \<and> v \<in> \<int> \<and> \<bar>u\<bar> \<le> B \<and> \<bar>v\<bar> \<le> B"
    and "acc \<in> \<int>" and "\<bar>acc\<bar> + real (length ps) * B\<^sup>2 < 2 ^ 24"
  shows "foldl (\<lambda>acc t. float32_round (acc + t)) acc
           (map (\<lambda>(u, v). float32_round (u * v)) ps)
         = acc + sum_list (map (\<lambda>(u, v). u * v) ps)"
  using assms
proof (induction ps arbitrary: acc)
  case Nil
  then show ?case by simp
next
  case (Cons a ps)
  obtain u v where a: "a = (u, v)" by (cases a)
  have uv: "u \<in> \<int>" "v \<in> \<int>" "\<bar>u\<bar> \<le> B" "\<bar>v\<bar> \<le> B"
    using Cons.prems(1) a by auto
  have B0: "0 \<le> B" using uv(3) by linarith
  have len0: "0 \<le> real (length ps) * B\<^sup>2" by simp
  have prod_int: "u * v \<in> \<int>" using uv by simp
  have prod_le: "\<bar>u * v\<bar> \<le> B\<^sup>2"
    unfolding abs_mult power2_eq_square using uv(3,4) by (intro mult_mono) auto
  have total: "\<bar>acc\<bar> + B\<^sup>2 + real (length ps) * B\<^sup>2 < 2 ^ 24"
    using Cons.prems(3) by (simp add: algebra_simps)
  have r1: "float32_round (u * v) = u * v"
  proof (rule float32_round_Ints [OF prod_int])
    show "\<bar>u * v\<bar> < 2 ^ 24"
      using prod_le total len0 by linarith
  qed
  have s_int: "acc + u * v \<in> \<int>" using Cons.prems(2) prod_int by simp
  have s_le: "\<bar>acc + u * v\<bar> \<le> \<bar>acc\<bar> + B\<^sup>2"
    using prod_le by linarith
  have r2: "float32_round (acc + u * v) = acc + u * v"
  proof (rule float32_round_Ints [OF s_int])
    show "\<bar>acc + u * v\<bar> < 2 ^ 24"
      using s_le total len0 by linarith
  qed
  have "foldl (\<lambda>acc t. float32_round (acc + t)) (acc + u * v)
           (map (\<lambda>(u, v). float32_round (u * v)) ps)
         = acc + u * v + sum_list (map (\<lambda>(u, v). u * v) ps)"
  proof (rule Cons.IH)
    show "\<forall>(u, v) \<in> set ps. u \<in> \<int> \<and> v \<in> \<int> \<and> \<bar>u\<bar> \<le> B \<and> \<bar>v\<bar> \<le> B"
      using Cons.prems(1) by auto
    show "acc + u * v \<in> \<int>" by (rule s_int)
    show "\<bar>acc + u * v\<bar> + real (length ps) * B\<^sup>2 < 2 ^ 24"
      using s_le total by linarith
  qed
  then show ?case
    by (simp add: a r1 r2)
qed

lemma sum_products_bound:
  assumes "\<forall>(u, v) \<in> set ps. u \<in> \<int> \<and> v \<in> \<int> \<and> \<bar>u\<bar> \<le> B \<and> \<bar>v\<bar> \<le> (B :: real)"
  shows "sum_list (map (\<lambda>(u, v). u * v) ps) \<in> \<int>
         \<and> \<bar>sum_list (map (\<lambda>(u, v). u * v) ps)\<bar> \<le> real (length ps) * B\<^sup>2"
  using assms
proof (induction ps)
  case Nil
  then show ?case by simp
next
  case (Cons a ps)
  obtain u v where a: "a = (u, v)" by (cases a)
  have uv: "u \<in> \<int>" "v \<in> \<int>" "\<bar>u\<bar> \<le> B" "\<bar>v\<bar> \<le> B"
    using Cons.prems(1) a by auto
  have prod_le: "\<bar>u * v\<bar> \<le> B\<^sup>2"
    unfolding abs_mult power2_eq_square using uv(3,4) by (intro mult_mono) auto
  have ih: "sum_list (map (\<lambda>(u, v). u * v) ps) \<in> \<int>"
    "\<bar>sum_list (map (\<lambda>(u, v). u * v) ps)\<bar> \<le> real (length ps) * B\<^sup>2"
    using Cons.IH Cons.prems by auto
  have "\<bar>u * v + sum_list (map (\<lambda>(u, v). u * v) ps)\<bar> \<le> B\<^sup>2 + real (length ps) * B\<^sup>2"
    using prod_le ih(2) by linarith
  then show ?case
    using ih(1) uv(1,2) by (simp add: a algebra_simps)
qed

lemma dot_float32_exact:
  assumes "\<forall>v \<in> set a \<union> set b. v \<in> \<int> \<and> \<bar>v\<bar> \<le> B"
    and "real (length a) * B\<^sup>2 < 2 ^ 24"
  shows "reduce_sum_float32 (vmul_float32 a b) = sum_list (vmul a b)"
    and "sum_list (vmul a b) \<in> \<int>"
    and "\<bar>sum_list (vmul a b)\<bar> \<le> real (length a) * B\<^sup>2"
proof -
  let ?ps = "zip a b"
  have mem: "\<forall>(u, v) \<in> set ?ps. u \<in> \<int> \<and> v \<in> \<int> \<and> \<bar>u\<bar> \<le> B \<and> \<bar>v\<bar> \<le> B"
    using assms(1) by (auto dest: set_zip_leftD set_zip_rightD)
  have len: "real (length ?ps) * B\<^sup>2 \<le> real (length a) * B\<^sup>2"
    by (intro mult_right_mono) auto
  have "foldl (\<lambda>acc t. float32_round (acc + t)) 0
           (map (\<lambda>(u, v). float32_round (u * v)) ?ps)
         = 0 + sum_list (map (\<lambda>(u, v). u * v) ?ps)"
    using mem len assms(2) by (intro reduce_products_float32_exact) auto
  then show "reduce_sum_float32 (vmul_float32 a b) = sum_list (vmul a b)"
    by (simp add: reduce_sum_float32_def vmul_float32_def vmul_def)
  from sum_products_bound [OF mem]
  show "sum_list (vmul a b) \<in> \<int>" and "\<bar>sum_list (vmul a b)\<bar> \<le> real (length a) * B\<^sup>2"
    using len by (auto simp: vmul_def)
qed

lemma pairwise_euclidean_similarity_float32_entry:
  assumes "p < length x" and "q < length y"
  shows "pairwise_euclidean_similarity_float32 x y ! p ! q
           = float32_round
               (float32_round
                  (float32_round (2 * reduce_sum_float32 (vmul_float32 (x ! p) (y ! q)))
                     - reduce_sum_float32 (vmul_float32 (x ! p) (x ! p)))
                - reduce_sum_float32 (vmul_float32 (y ! q) (y ! q)))"
  using assms
  by (simp add: pairwise_euclidean_similarity_float32_def matmul_transpose_b_float32_def
        Let_def)

section \<open>Claims: similarity and losses\<close>

text \<open>
  C7 as stated does not hold: the program computes in float32, and the expansion loses
  what the squares do not hold. For \<open>x = [10000, 0]\<close> and \<open>y = [10001, 0]\<close>, both float32
  numbers, \<open>|y|\<^sup>2 = 100020001\<close> is rounded to \<open>100020000\<close> (float32 numbers of that size are
  8 apart) and the function returns 0, whereas \<open>- |x - y|\<^sup>2 = - 1\<close>. Every sum here has one
  term that is not zero, so the result does not depend on the order of the additions.
\<close>

theorem pairwise_euclidean_similarity_rounding_counterexample:
  "pairwise_euclidean_similarity_float32 [[10000, 0]] [[10001, 0]] = [[0]]
   \<and> - (\<Sum>j<2. ([10000, 0 :: real] ! j - [10001, 0] ! j) ^ 2) = - 1
   \<and> pairwise_euclidean_similarity [[10000, 0]] [[10001, 0]] = [[- 1]]
   \<and> float32_round 10000 = 10000 \<and> float32_round 10001 = 10001"
proof -
  have r: "float32_round 100010000 = 100010000" "float32_round 200020000 = 200020000"
    "float32_round 100000000 = 100000000" "float32_round 100020000 = 100020000"
    "float32_round 10000 = 10000" "float32_round 10001 = 10001"
    by (rule float32_round_exact [where k = 26 and m = 12501250], simp_all)
       (rule float32_round_exact [where k = 27 and m = 12501250], simp_all,
        rule float32_round_exact [where k = 26 and m = 12500000], simp_all,
        rule float32_round_exact [where k = 26 and m = 12502500], simp_all,
        rule float32_round_of_int [of 10000, simplified],
        rule float32_round_of_int [of 10001, simplified])
  have y: "float32_round 100020001 = 100020000"
    using float32_round_binade [of 26 100020001]
    by (simp add: round_half_even_def)
  show ?thesis
    by (simp add: pairwise_euclidean_similarity_float32_def matmul_transpose_b_float32_def
          reduce_sum_float32_def vmul_float32_def r y
          pairwise_euclidean_similarity_def matmul_transpose_b_def vmul_def
          eval_nat_numeral)
qed

text \<open>
  C7 (as amended). For \<open>x : [n, d]\<close> and \<open>y : [m, d]\<close>, the expansion
  \<open>2 x\<^sub>p\<^sup>T y\<^sub>q - |x\<^sub>p|\<^sup>2 - |y\<^sub>q|\<^sup>2\<close> that \<open>pairwise_euclidean_similarity\<close> evaluates for the
  entry \<open>[p, q]\<close> equals \<open>- |x\<^sub>p - y\<^sub>q|\<^sup>2\<close> in exact arithmetic. The float32 result is that
  expansion with every operation rounded; it is exactly \<open>- |x\<^sub>p - y\<^sub>q|\<^sup>2\<close> when no operation
  has to round, in particular when the entries of both rows are integers of magnitude at
  most \<open>B\<close> with \<open>4 d B\<^sup>2 < 2\<^sup>2\<^sup>4\<close>.
\<close>

theorem pairwise_euclidean_similarity_neg_sq_dist:
  assumes "p < length x" and "q < length y" and "length (x ! p) = length (y ! q)"
  shows "pairwise_euclidean_similarity x y ! p ! q
           = 2 * sum_list (vmul (x ! p) (y ! q)) - sum_list (vmul (x ! p) (x ! p))
               - sum_list (vmul (y ! q) (y ! q))
         \<and> pairwise_euclidean_similarity x y ! p ! q
           = - (\<Sum>j<length (x ! p). (x ! p ! j - y ! q ! j) ^ 2)
         \<and> ((\<forall>v \<in> set (x ! p) \<union> set (y ! q). v \<in> \<int> \<and> \<bar>v\<bar> \<le> B)
              \<and> 4 * real (length (x ! p)) * B\<^sup>2 < 2 ^ 24
            \<longrightarrow> pairwise_euclidean_similarity_float32 x y ! p ! q
                  = - (\<Sum>j<length (x ! p). (x ! p ! j - y ! q ! j) ^ 2))"
proof -
  have entry: "pairwise_euclidean_similarity x y ! p ! q
      = 2 * sum_list (vmul (x ! p) (y ! q)) - sum_list (vmul (x ! p) (x ! p))
          - sum_list (vmul (y ! q) (y ! q))"
    using assms(1,2)
    by (simp add: pairwise_euclidean_similarity_def matmul_transpose_b_def Let_def)
  have exact: "pairwise_euclidean_similarity x y ! p ! q
           = - (\<Sum>j<length (x ! p). (x ! p ! j - y ! q ! j) ^ 2)"
    using entry euclidean_expansion_row [OF assms(3)] by simp
  have fl: "pairwise_euclidean_similarity_float32 x y ! p ! q
                  = - (\<Sum>j<length (x ! p). (x ! p ! j - y ! q ! j) ^ 2)"
    if h: "(\<forall>v \<in> set (x ! p) \<union> set (y ! q). v \<in> \<int> \<and> \<bar>v\<bar> \<le> B)
              \<and> 4 * real (length (x ! p)) * B\<^sup>2 < 2 ^ 24"
  proof -
    let ?a = "x ! p" and ?b = "y ! q"
    define W where "W = real (length ?a) * B\<^sup>2"
    have W0: "0 \<le> W" by (simp add: W_def)
    have W4: "4 * W < 2 ^ 24" using h by (simp add: W_def)
    have "W < 2 ^ 24" using W0 W4 by linarith
    then have small: "real (length ?a) * B\<^sup>2 < 2 ^ 24" "real (length ?b) * B\<^sup>2 < 2 ^ 24"
      using assms(3) by (simp_all add: W_def)
    have ab: "\<forall>v \<in> set ?a \<union> set ?b. v \<in> \<int> \<and> \<bar>v\<bar> \<le> B"
      and aa: "\<forall>v \<in> set ?a \<union> set ?a. v \<in> \<int> \<and> \<bar>v\<bar> \<le> B"
      and bb: "\<forall>v \<in> set ?b \<union> set ?b. v \<in> \<int> \<and> \<bar>v\<bar> \<le> B"
      using h by auto
    note d_ab = dot_float32_exact [OF ab small(1)]
    note d_aa = dot_float32_exact [OF aa small(1)]
    note d_bb = dot_float32_exact [OF bb small(2)]
    define D where "D = sum_list (vmul ?a ?b)"
    define X where "X = sum_list (vmul ?a ?a)"
    define Y where "Y = sum_list (vmul ?b ?b)"
    have ints: "D \<in> \<int>" "X \<in> \<int>" "Y \<in> \<int>"
      using d_ab(2) d_aa(2) d_bb(2) by (simp_all add: D_def X_def Y_def)
    have bounds: "\<bar>D\<bar> \<le> W" "\<bar>X\<bar> \<le> W" "\<bar>Y\<bar> \<le> W"
      using d_ab(3) d_aa(3) d_bb(3) assms(3) by (simp_all add: D_def X_def Y_def W_def)
    have r1: "float32_round (2 * D) = 2 * D"
    proof (rule float32_round_Ints)
      show "2 * D \<in> \<int>" using ints by simp
      show "\<bar>2 * D\<bar> < 2 ^ 24" using bounds W0 W4 by linarith
    qed
    have r2: "float32_round (2 * D - X) = 2 * D - X"
    proof (rule float32_round_Ints)
      show "2 * D - X \<in> \<int>" using ints by simp
      show "\<bar>2 * D - X\<bar> < 2 ^ 24" using bounds W0 W4 by linarith
    qed
    have r3: "float32_round (2 * D - X - Y) = 2 * D - X - Y"
    proof (rule float32_round_Ints)
      show "2 * D - X - Y \<in> \<int>" using ints by simp
      show "\<bar>2 * D - X - Y\<bar> < 2 ^ 24" using bounds W0 W4 by linarith
    qed
    have "pairwise_euclidean_similarity_float32 x y ! p ! q
            = float32_round (float32_round (float32_round (2 * D) - X) - Y)"
      unfolding pairwise_euclidean_similarity_float32_entry [OF assms(1,2)]
        d_ab(1) d_aa(1) d_bb(1) D_def X_def Y_def ..
    also have "\<dots> = 2 * D - X - Y"
      by (simp only: r1 r2 r3)
    also have "\<dots> = pairwise_euclidean_similarity x y ! p ! q"
      by (simp only: entry D_def X_def Y_def)
    finally show ?thesis
      by (simp only: exact)
  qed
  show ?thesis
    using entry exact fl by blast
qed

theorem pairwise_euclidean_similarity_neg_sq_dist_witness:
  "pairwise_euclidean_similarity [[1, 2], [0, 3]] [[4, 6], [1, 1], [0, 0]] ! 1 ! 0
     = - (\<Sum>j<length ([[1, 2], [0, 3 :: real]] ! 1).
            ([[1, 2], [0, 3]] ! 1 ! j - [[4, 6], [1, 1], [0, 0]] ! 0 ! j) ^ 2)
   \<and> pairwise_euclidean_similarity [[1, 2], [0, 3]] [[4, 6], [1, 1], [0, 0]] ! 1 ! 0 = - 25
   \<and> pairwise_euclidean_similarity_float32 [[1, 2], [0, 3]] [[4, 6], [1, 1], [0, 0]] ! 1 ! 0
       = - 25"
proof -
  have h: "(1 :: nat) < length [[1, 2], [0, 3 :: real]]"
    "(0 :: nat) < length [[4, 6], [1, 1], [0, 0 :: real]]"
    "length ([[1, 2], [0, 3 :: real]] ! 1) = length ([[4, 6], [1, 1], [0, 0 :: real]] ! 0)"
    by simp_all
  have i: "(\<forall>v \<in> set ([[1, 2], [0, 3 :: real]] ! 1) \<union> set ([[4, 6], [1, 1], [0, 0]] ! 0).
              v \<in> \<int> \<and> \<bar>v\<bar> \<le> 6)
           \<and> 4 * real (length ([[1, 2], [0, 3 :: real]] ! 1)) * 6\<^sup>2 < 2 ^ 24"
    by simp
  note t = pairwise_euclidean_similarity_neg_sq_dist [OF h, of 6]
  have b: "pairwise_euclidean_similarity [[1, 2], [0, 3]] [[4, 6], [1, 1], [0, 0]] ! 1 ! 0
             = - 25"
    by (simp add: pairwise_euclidean_similarity_def matmul_transpose_b_def vmul_def)
  have a: "pairwise_euclidean_similarity [[1, 2], [0, 3]] [[4, 6], [1, 1], [0, 0]] ! 1 ! 0
     = - (\<Sum>j<length ([[1, 2], [0, 3 :: real]] ! 1).
            ([[1, 2], [0, 3]] ! 1 ! j - [[4, 6], [1, 1], [0, 0]] ! 0 ! j) ^ 2)"
    using t by blast
  have c: "pairwise_euclidean_similarity_float32 [[1, 2], [0, 3]] [[4, 6], [1, 1], [0, 0]] ! 1 ! 0
     = - (\<Sum>j<length ([[1, 2], [0, 3 :: real]] ! 1).
            ([[1, 2], [0, 3]] ! 1 ! j - [[4, 6], [1, 1], [0, 0]] ! 0 ! j) ^ 2)"
    using t i by blast
  show ?thesis using a b c by simp
qed

text \<open>
  C8. The losses keep the stated numeric semantics, per example \<open>i\<close> of a batch:
  \<open>pairwise_loss\<close> with \<open>'margin'\<close> is \<open>max(0, margin - label * (1 - d(x, y)))\<close> with
  \<open>d\<close> the squared Euclidean distance; with \<open>'hamming'\<close> it is \<open>1/4\<close> of the squared
  difference of the label and the approximate Hamming similarity (the mean over the
  features of \<open>tanh(x) * tanh(y)\<close>); \<open>triplet_loss\<close> with \<open>'margin'\<close> is
  \<open>max(0, margin + d(x1, y) - d(x2, z))\<close> and with \<open>'hamming'\<close> it is \<open>1/8\<close> of
  \<open>(s(x1, y) - 1)\<^sup>2 + (s(x2, z) + 1)\<^sup>2\<close>.
\<close>

theorem loss_numeric_semantics:
  assumes "i < length x" and "length y = length x" and "length labels = length x"
    and "length (y ! i) = length (x ! i)"
    and "k < length x1" and "length y' = length x1" and "length x2 = length x1"
    and "length z = length x1"
    and "length (y' ! k) = length (x1 ! k)" and "length (z ! k) = length (x2 ! k)"
  shows "(\<exists>L. pairwise_loss x y labels ''margin'' margin = Inr L \<and> length L = length x \<and>
            L ! i = max 0 (margin - real_of_int (labels ! i)
                      * (1 - (\<Sum>j<length (x ! i). (x ! i ! j - y ! i ! j) ^ 2))))
       \<and> (0 < length (x ! i) \<longrightarrow>
          (\<exists>L. pairwise_loss x y labels ''hamming'' margin = Inr L \<and> length L = length x \<and>
            L ! i = 1 / 4 * (real_of_int (labels ! i)
                      - (\<Sum>j<length (x ! i). tanh (x ! i ! j) * tanh (y ! i ! j))
                          / real (length (x ! i))) ^ 2))
       \<and> (\<exists>L. triplet_loss x1 y' x2 z ''margin'' margin = Inr L \<and> length L = length x1 \<and>
            L ! k = max 0 (margin + (\<Sum>j<length (x1 ! k). (x1 ! k ! j - y' ! k ! j) ^ 2)
                      - (\<Sum>j<length (x2 ! k). (x2 ! k ! j - z ! k ! j) ^ 2)))
       \<and> (0 < length (x1 ! k) \<and> 0 < length (x2 ! k) \<longrightarrow>
          (\<exists>L. triplet_loss x1 y' x2 z ''hamming'' margin = Inr L \<and> length L = length x1 \<and>
            L ! k = 1 / 8 *
              (((\<Sum>j<length (x1 ! k). tanh (x1 ! k ! j) * tanh (y' ! k ! j))
                   / real (length (x1 ! k)) - 1) ^ 2
               + ((\<Sum>j<length (x2 ! k). tanh (x2 ! k ! j) * tanh (z ! k ! j))
                   / real (length (x2 ! k)) + 1) ^ 2)))"
proof -
  have d: "euclidean_distance a b ! n = (\<Sum>j<length (a ! n). (a ! n ! j - b ! n ! j) ^ 2)"
    if "n < length a" "length b = length a" "length (b ! n) = length (a ! n)" for a b n
  proof -
    have "sum_list (map (\<lambda>v. v ^ 2) (vsub (a ! n) (b ! n)))
            = sum_list (map2 (\<lambda>u v. (u - v) ^ 2) (a ! n) (b ! n))"
      by (simp add: vsub_def comp_def case_prod_unfold)
    also have "\<dots> = (\<Sum>j<length (a ! n). (a ! n ! j - b ! n ! j) ^ 2)"
      using that(3) by (intro sum_list_map2_nth) simp
    finally show ?thesis using that(1,2) by (simp add: euclidean_distance_def)
  qed
  have s: "approximate_hamming_similarity a b ! n
             = (\<Sum>j<length (a ! n). tanh (a ! n ! j) * tanh (b ! n ! j)) / real (length (a ! n))"
    if "n < length a" "length b = length a" "length (b ! n) = length (a ! n)" for a b n
  proof -
    have "sum_list (vmul (map tanh (a ! n)) (map tanh (b ! n)))
            = sum_list (map2 (\<lambda>u v. tanh u * tanh v) (a ! n) (b ! n))"
      by (simp add: vmul_def zip_map_map comp_def case_prod_unfold)
    also have "\<dots> = (\<Sum>j<length (a ! n). tanh (a ! n ! j) * tanh (b ! n ! j))"
      using that(3) by (intro sum_list_map2_nth) simp
    finally show ?thesis
      using that by (simp add: approximate_hamming_similarity_def reduce_mean_def vmul_def)
  qed
  have pm: "\<exists>L. pairwise_loss x y labels ''margin'' margin = Inr L \<and> length L = length x \<and>
            L ! i = max 0 (margin - real_of_int (labels ! i)
                      * (1 - (\<Sum>j<length (x ! i). (x ! i ! j - y ! i ! j) ^ 2)))"
    using assms(1-4) d [of i x y]
    by (simp add: pairwise_loss_def relu_def euclidean_distance_def)
  have ph: "\<exists>L. pairwise_loss x y labels ''hamming'' margin = Inr L \<and> length L = length x \<and>
            L ! i = 1 / 4 * (real_of_int (labels ! i)
                      - (\<Sum>j<length (x ! i). tanh (x ! i ! j) * tanh (y ! i ! j))
                          / real (length (x ! i))) ^ 2"
    using assms(1-4) s [of i x y]
    by (simp add: pairwise_loss_def approximate_hamming_similarity_def)
  have tm: "\<exists>L. triplet_loss x1 y' x2 z ''margin'' margin = Inr L \<and> length L = length x1 \<and>
            L ! k = max 0 (margin + (\<Sum>j<length (x1 ! k). (x1 ! k ! j - y' ! k ! j) ^ 2)
                      - (\<Sum>j<length (x2 ! k). (x2 ! k ! j - z ! k ! j) ^ 2))"
    using assms(5-10) d [of k x1 y'] d [of k x2 z]
    by (simp add: triplet_loss_def relu_def euclidean_distance_def)
  have th: "\<exists>L. triplet_loss x1 y' x2 z ''hamming'' margin = Inr L \<and> length L = length x1 \<and>
            L ! k = 1 / 8 *
              (((\<Sum>j<length (x1 ! k). tanh (x1 ! k ! j) * tanh (y' ! k ! j))
                   / real (length (x1 ! k)) - 1) ^ 2
               + ((\<Sum>j<length (x2 ! k). tanh (x2 ! k ! j) * tanh (z ! k ! j))
                   / real (length (x2 ! k)) + 1) ^ 2)"
    using assms(5-10) s [of k x1 y'] s [of k x2 z]
    by (simp add: triplet_loss_def approximate_hamming_similarity_def)
  show ?thesis using pm ph tm th by blast
qed

theorem loss_numeric_semantics_witness:
  "(\<exists>L. pairwise_loss [[0, 3]] [[4, 0]] [1] ''margin'' 1 = Inr L \<and> L ! 0 = 25)
   \<and> (\<exists>L. pairwise_loss [[0, 3]] [[4, 0]] [1] ''hamming'' 1 = Inr L \<and> L ! 0 = 1 / 4)
   \<and> (\<exists>L. triplet_loss [[0, 3]] [[4, 0]] [[0, 3]] [[5, 0]] ''margin'' 1 = Inr L \<and> L ! 0 = 0)
   \<and> (\<exists>L. triplet_loss [[0, 3]] [[4, 0]] [[0, 3]] [[5, 0]] ''hamming'' 1 = Inr L
          \<and> L ! 0 = 1 / 4)"
  using loss_numeric_semantics
          [of 0 "[[0, 3]]" "[[4, 0]]" "[1]" 0 "[[0, 3]]" "[[4, 0]]" "[[0, 3]]" "[[5, 0]]" 1]
  by (simp add: lessThan_Suc eval_nat_numeral) blast

section \<open>Facts about the reductions\<close>

lemma vadd_left_commute: "vadd a (vadd b c) = vadd b (vadd a c)"
  by (rule nth_equalityI) (auto simp: vadd_def)

lemma vmax_left_commute: "vmax a (vmax b c) = vmax b (vmax a c)"
  by (rule nth_equalityI) (auto simp: vmax_def)

lemma foldr_mset_cong:
  assumes "\<And>a b c. f a (f b c) = f b (f a c)" and "mset rows = mset rows'"
  shows "foldr f rows z = foldr f rows' z"
proof -
  have "fold f (rev rows) = fold f (rev rows')"
    by (rule fold_multiset_equiv) (auto simp: assms fun_eq_iff)
  then show ?thesis by (simp add: foldr_conv_fold)
qed

lemma reduce_sum_rows_mset:
  "mset rows = mset rows' \<Longrightarrow> reduce_sum_rows d rows = reduce_sum_rows d rows'"
  unfolding reduce_sum_rows_def by (rule foldr_mset_cong) (rule vadd_left_commute)

lemma segment_max_mset:
  "mset rows = mset rows' \<Longrightarrow> foldr vmax rows z = foldr vmax rows' z"
  by (rule foldr_mset_cong) (rule vmax_left_commute)

lemma segment_rows_mset:
  assumes "mset (zip data' ids') = mset (zip data ids)"
  shows "mset (segment_rows data' ids' g) = mset (segment_rows data ids g)"
proof -
  have "mset (segment_rows data' ids' g)
          = image_mset fst (filter_mset (\<lambda>ri. snd ri = g) (mset (zip data' ids')))"
    by (simp add: segment_rows_def)
  also have "\<dots> = mset (segment_rows data ids g)"
    by (simp add: assms segment_rows_def)
  finally show ?thesis .
qed

lemma segment_ids_ok_mset:
  assumes "length ids = length data" and "length ids' = length data'"
    and "mset (zip data' ids') = mset (zip data ids)"
  shows "segment_ids_ok data' ids' n = segment_ids_ok data ids n"
proof -
  have "mset (map snd (zip data' ids')) = mset (map snd (zip data ids))"
    using assms(3) by simp
  then have "mset ids' = mset ids"
    using assms(1,2) by (simp add: map_snd_zip)
  then have "set ids' = set ids"
    by (rule mset_eq_setD)
  then show ?thesis
    using assms(1,2) by (simp add: segment_ids_ok_def list_all_iff)
qed

lemma segment_reduce_mset:
  assumes "\<And>rows rows'. mset rows = mset rows' \<Longrightarrow> f rows = f rows'"
    and "length ids = length data" and "length ids' = length data'"
    and "mset (zip data' ids') = mset (zip data ids)"
  shows "segment_reduce f data' ids' n = segment_reduce f data ids n"
proof -
  have "f (segment_rows data' ids' g) = f (segment_rows data ids g)" for g
    by (rule assms(1)) (rule segment_rows_mset [OF assms(4)])
  then show ?thesis
    using segment_ids_ok_mset [OF assms(2-4)] by (simp add: segment_reduce_def)
qed

section \<open>Claims: graph aggregator\<close>

lemma AGGREGATION_TYPE_cases:
  assumes "AGGREGATION_TYPE name = Some op"
  shows "op = unsorted_segment_sum \<or> op = unsorted_segment_mean
         \<or> op = unsorted_segment_sqrt_n \<or> op = unsorted_segment_max"
  using assms by (auto simp: AGGREGATION_TYPE_def split: if_splits)

lemma aggregation_op_mset:
  assumes "AGGREGATION_TYPE name = Some op"
    and "length ids = length data" and "length ids' = length data'"
    and "mset (zip data' ids') = mset (zip data ids)"
  shows "op d data' ids' n = op d data ids n"
proof -
  have len: "length rows = length rows'" if "mset rows = mset rows'" for rows rows' :: mat
    using that by (rule mset_eq_length)
  from AGGREGATION_TYPE_cases [OF assms(1)] show ?thesis
  proof (elim disjE)
    assume "op = unsorted_segment_sum"
    then show ?thesis
      unfolding unsorted_segment_sum_def
      by (simp add: segment_reduce_mset [OF reduce_sum_rows_mset assms(2-4)])
  next
    assume o: "op = unsorted_segment_mean"
    show ?thesis
      unfolding o unsorted_segment_mean_def
    proof (rule segment_reduce_mset [OF _ assms(2-4)])
      fix rows rows' :: mat
      assume m: "mset rows = mset rows'"
      show "map (\<lambda>v. v / real (max (length rows) 1)) (reduce_sum_rows d rows)
            = map (\<lambda>v. v / real (max (length rows') 1)) (reduce_sum_rows d rows')"
        by (simp only: len [OF m] reduce_sum_rows_mset [OF m])
    qed
  next
    assume o: "op = unsorted_segment_sqrt_n"
    show ?thesis
      unfolding o unsorted_segment_sqrt_n_def
    proof (rule segment_reduce_mset [OF _ assms(2-4)])
      fix rows rows' :: mat
      assume m: "mset rows = mset rows'"
      show "map (\<lambda>v. v / sqrt (real (max (length rows) 1))) (reduce_sum_rows d rows)
            = map (\<lambda>v. v / sqrt (real (max (length rows') 1))) (reduce_sum_rows d rows')"
        by (simp only: len [OF m] reduce_sum_rows_mset [OF m])
    qed
  next
    assume "op = unsorted_segment_max"
    then show ?thesis
      unfolding unsorted_segment_max_def
      by (simp add: segment_reduce_mset [OF segment_max_mset assms(2-4)])
  qed
qed

lemma node_values_rowwise:
  "\<exists>h. \<forall>ns. node_values agg ns = map h ns"
proof (cases "gated agg")
  case True
  then have "\<forall>ns. node_values agg ns
      = map (\<lambda>r. vmul (drop (graph_state_dim agg) (node_state_g_mlp agg r))
                    (map sigmoid (take (graph_state_dim agg) (node_state_g_mlp agg r)))) ns"
    by (simp add: node_values_def comp_def)
  then show ?thesis by blast
next
  case False
  then have "\<forall>ns. node_values agg ns = map (node_state_g_mlp agg) ns"
    by (simp add: node_values_def)
  then show ?thesis by blast
qed

lemma node_values_mset:
  fixes ids ids' :: "'a list"
  assumes "length ids = length ns" and "length ids' = length ns'"
    and "mset (zip ns' ids') = mset (zip ns ids)"
  shows "mset (zip (node_values agg ns') ids') = mset (zip (node_values agg ns) ids)"
proof -
  obtain h where h: "\<And>ns. node_values agg ns = map h ns"
    using node_values_rowwise by blast
  have z: "mset (zip (map h xs) js)
             = image_mset (\<lambda>ri. (h (fst ri), snd ri)) (mset (zip xs js))"
    for xs and js :: "'a list"
    by (simp add: zip_map1 case_prod_unfold flip: mset_map)
  have "mset (zip (map h ns') ids') = mset (zip (map h ns) ids)"
    using z [of ns' ids'] z [of ns ids] assms(3) by simp
  then show ?thesis by (simp only: h)
qed

text \<open>
  C5. The Graph Aggregator does not depend on the order in which the nodes are listed:
  when the node rows together with their graph tags are permuted (the multiset of
  (row, tag) pairs is unchanged; a permutation inside one graph is a special case), the
  output is the same, for the plain and the gated variant and for each of the reductions
  \<open>sum\<close>, \<open>mean\<close>, \<open>sqrt_n\<close> and \<open>max\<close> that the constructor accepts.
\<close>

theorem graph_aggregator_permutation_invariant:
  assumes "GraphAggregator_init sizes tsizes is_gated agg_type g_mlp t_mlp = Inr agg"
    and "length graph_idx = length node_states"
    and "length graph_idx' = length node_states'"
    and "mset (zip node_states' graph_idx') = mset (zip node_states graph_idx)"
  shows "GraphAggregator_build agg node_states' graph_idx' n_graphs
           = GraphAggregator_build agg node_states graph_idx n_graphs"
proof -
  from assms(1) have op: "AGGREGATION_TYPE agg_type = Some (aggregation_op agg)"
    by (auto simp: GraphAggregator_init_def split: if_splits option.splits)
  have l: "length graph_idx = length (node_values agg node_states)"
       "length graph_idx' = length (node_values agg node_states')"
    using node_values_rowwise [of agg] assms(2,3) by auto
  have "aggregation_op agg (graph_state_dim agg) (node_values agg node_states') graph_idx' n_graphs
      = aggregation_op agg (graph_state_dim agg) (node_values agg node_states) graph_idx n_graphs"
    by (rule aggregation_op_mset [OF op l node_values_mset [OF assms(2-4)]])
  then show ?thesis by (simp add: GraphAggregator_build_def)
qed

lemma float32_lowest_small: "\<not> float32_lowest > - 100000"
  by (simp add: float32_lowest_def)

lemma segment_rows_empty: "g \<notin> set ids \<Longrightarrow> segment_rows data ids g = []"
  by (auto simp: segment_rows_def filter_empty_conv dest: set_zip_rightD)

lemma init_max_fields:
  assumes "GraphAggregator_init sizes tsizes is_gated ''max'' g_mlp t_mlp = Inr agg"
  shows "aggregation_op agg = unsorted_segment_max" and "aggregation_type agg = ''max''"
  using assms
  by (auto simp: GraphAggregator_init_def AGGREGATION_TYPE_def split: if_splits)

text \<open>
  C9. With aggregation type \<open>'max'\<close>, a graph with no nodes (its index is the tag of no
  node) gets the all-zeros vector from the Graph Aggregator before the optional final
  transform (the transform, when configured, is applied to that zero vector), not the
  lowest float that the reduction gives an empty segment.
\<close>

theorem max_aggregation_empty_graph_zero:
  assumes "GraphAggregator_init sizes tsizes is_gated ''max'' g_mlp t_mlp = Inr agg"
    and "length graph_idx = length node_states"
    and "list_all (\<lambda>i. i < n_graphs) graph_idx"
    and "g < n_graphs" and "g \<notin> set graph_idx"
  shows "\<exists>gs. GraphAggregator_build agg node_states graph_idx n_graphs = Inr gs
           \<and> length gs = n_graphs
           \<and> gs ! g = (if has_graph_transform agg
                        then graph_transform_mlp agg (zeros (graph_state_dim agg))
                        else zeros (graph_state_dim agg))"
proof -
  note f = init_max_fields [OF assms(1)]
  have ok: "segment_ids_ok (node_values agg node_states) graph_idx n_graphs"
    using node_values_rowwise [of agg] assms(2,3) by (auto simp: segment_ids_ok_def)
  have rows: "segment_rows (node_values agg node_states) graph_idx g = []"
    using assms(5) by (rule segment_rows_empty)
  show ?thesis
    using ok assms(4) float32_lowest_small
    by (simp add: GraphAggregator_build_def f unsorted_segment_max_def segment_reduce_def
          rows zeros_def)
qed

lemma foldr_vmax_nth:
  assumes "list_all (\<lambda>r. length r = d) rows" and "j < d"
  shows "foldr vmax rows (replicate d z) ! j = foldr max (map (\<lambda>r. r ! j) rows) z
         \<and> length (foldr vmax rows (replicate d z)) = d"
  using assms by (induction rows) (auto simp: vmax_def)

lemmas aggregator_eval =
  GraphAggregator_init_def GraphAggregator_build_def node_values_def has_graph_transform_def
  AGGREGATION_TYPE_def unsorted_segment_sum_def unsorted_segment_max_def
  unsorted_segment_mean_def unsorted_segment_sqrt_n_def segment_reduce_def
  segment_ids_ok_def segment_rows_def reduce_sum_rows_def vadd_def vmax_def vmul_def
  zeros_def sigmoid_def float32_lowest_def upt_rec

theorem graph_aggregator_permutation_invariant_witness:
  "(case GraphAggregator_init [1] None True ''sum'' (\<lambda>r. r) (\<lambda>r. r) of
      Inl e \<Rightarrow> False
    | Inr agg \<Rightarrow>
        GraphAggregator_build agg [[0, 6], [0, 4], [0, 2]] [0, 1, 0] 2
          = GraphAggregator_build agg [[0, 2], [0, 4], [0, 6]] [0, 1, 0] 2
        \<and> GraphAggregator_build agg [[0, 2], [0, 4], [0, 6]] [0, 1, 0] 2 = Inr [[4], [2]])"
proof -
  obtain agg where i: "GraphAggregator_init [1] None True ''sum'' (\<lambda>r. r) (\<lambda>r. r) = Inr agg"
    by (simp add: GraphAggregator_init_def AGGREGATION_TYPE_def)
  have m: "mset (zip [[0, 6], [0, 4], [0, 2 :: real]] [0, 1, 0 :: nat])
         = mset (zip [[0, 2], [0, 4], [0, 6]] [0, 1, 0])"
    by (simp add: add_mset_commute)
  have e: "GraphAggregator_build agg [[0, 2], [0, 4], [0, 6]] [0, 1, 0] 2 = Inr [[4], [2]]"
    using i by (auto simp: aggregator_eval)
  show ?thesis
    using graph_aggregator_permutation_invariant [OF i _ _ m, of 2] e i by simp
qed

theorem max_aggregation_empty_graph_zero_witness:
  "(case GraphAggregator_init [1] None True ''max'' (\<lambda>r. r) (\<lambda>r. r) of
      Inl e \<Rightarrow> False
    | Inr agg \<Rightarrow> \<exists>gs. GraphAggregator_build agg [[0, 2]] [0] 2 = Inr gs \<and> gs ! 1 = [0])"
proof -
  obtain agg where i: "GraphAggregator_init [1] None True ''max'' (\<lambda>r. r) (\<lambda>r. r) = Inr agg"
    by (simp add: GraphAggregator_init_def AGGREGATION_TYPE_def)
  have t: "\<not> has_graph_transform agg" and d: "graph_state_dim agg = 1"
    using i by (auto simp: GraphAggregator_init_def has_graph_transform_def split: option.splits)
  have "\<exists>gs. GraphAggregator_build agg [[0, 2]] [0] 2 = Inr gs \<and> length gs = 2 \<and> gs ! 1 = [0]"
    using max_aggregation_empty_graph_zero [OF i, of "[0]" "[[0, 2]]" 2 1] t d
    by (simp add: zeros_def)
  then show ?thesis using i by auto
qed

text \<open>
  C10. With aggregation type \<open>'max'\<close>, the correction for empty graphs sets to zero every
  component whose reduced value is not strictly greater than \<open>-1e5\<close>, also for a graph
  that has nodes: component \<open>j\<close> of graph \<open>g\<close> before the final transform is the maximum
  \<open>m\<close> of the nodes' (gated) values if \<open>m > -1e5\<close> and \<open>0\<close> otherwise. So for some
  non-empty graph the reported component is \<open>0\<close> and not its maximum: a graph whose only
  node has the gated value \<open>-200000\<close> is reported as \<open>0\<close>.
\<close>

theorem max_aggregation_threshold_zeroes_small_values:
  assumes "GraphAggregator_init sizes tsizes is_gated ''max'' g_mlp t_mlp = Inr agg"
    and "length graph_idx = length node_states"
    and "list_all (\<lambda>i. i < n_graphs) graph_idx"
    and "list_all (\<lambda>r. length r = graph_state_dim agg) (node_values agg node_states)"
    and "g < n_graphs" and "j < graph_state_dim agg"
  shows "(\<exists>pre. GraphAggregator_build agg node_states graph_idx n_graphs
                 = Inr (if has_graph_transform agg then map (graph_transform_mlp agg) pre
                        else pre)
            \<and> length pre = n_graphs
            \<and> pre ! g ! j =
              (let m = foldr max
                         (map (\<lambda>r. r ! j) (segment_rows (node_values agg node_states) graph_idx g))
                         float32_lowest
               in if m > - 100000 then m else 0))
       \<and> (case GraphAggregator_init [1] None True ''max'' (\<lambda>r. r) (\<lambda>r. r) of
            Inl e \<Rightarrow> False
          | Inr A \<Rightarrow>
              segment_rows (node_values A [[0, - 400000]]) [0 :: nat] 0 = [[- 200000]]
              \<and> GraphAggregator_build A [[0, - 400000]] [0] 1 = Inr [[0]])"
proof (intro conjI)
  note f = init_max_fields [OF assms(1)]
  have ok: "segment_ids_ok (node_values agg node_states) graph_idx n_graphs"
    using node_values_rowwise [of agg] assms(2,3) by (auto simp: segment_ids_ok_def)
  have w: "list_all (\<lambda>r. length r = graph_state_dim agg)
             (segment_rows (node_values agg node_states) graph_idx g)"
    using assms(4) by (auto simp: segment_rows_def list_all_iff dest: set_zip_leftD)
  note n = foldr_vmax_nth [OF w assms(6), of float32_lowest]
  let ?pre = "map (map (\<lambda>v. v * (if v > - 100000 then 1 else 0)))
                (map (\<lambda>g. foldr vmax (segment_rows (node_values agg node_states) graph_idx g)
                             (replicate (graph_state_dim agg) float32_lowest)) [0..<n_graphs])"
  have b: "GraphAggregator_build agg node_states graph_idx n_graphs
                 = Inr (if has_graph_transform agg then map (graph_transform_mlp agg) ?pre
                        else ?pre)"
    using ok
    by (simp add: GraphAggregator_build_def f unsorted_segment_max_def segment_reduce_def)
  have v: "?pre ! g ! j =
              (let m = foldr max
                         (map (\<lambda>r. r ! j) (segment_rows (node_values agg node_states) graph_idx g))
                         float32_lowest
               in if m > - 100000 then m else 0)"
    using assms(5,6) n by (simp add: Let_def)
  show "\<exists>pre. GraphAggregator_build agg node_states graph_idx n_graphs
                 = Inr (if has_graph_transform agg then map (graph_transform_mlp agg) pre
                        else pre)
            \<and> length pre = n_graphs
            \<and> pre ! g ! j =
              (let m = foldr max
                         (map (\<lambda>r. r ! j) (segment_rows (node_values agg node_states) graph_idx g))
                         float32_lowest
               in if m > - 100000 then m else 0)"
    using b v by (intro exI [of _ ?pre]) simp
next
  show "case GraphAggregator_init [1] None True ''max'' (\<lambda>r. r) (\<lambda>r. r) of
            Inl e \<Rightarrow> False
          | Inr A \<Rightarrow>
              segment_rows (node_values A [[0, - 400000]]) [0 :: nat] 0 = [[- 200000]]
              \<and> GraphAggregator_build A [[0, - 400000]] [0] 1 = Inr [[0]]"
    by (simp add: aggregator_eval)
qed

theorem max_aggregation_threshold_zeroes_small_values_witness:
  "(case GraphAggregator_init [1] None True ''max'' (\<lambda>r. r) (\<lambda>r. r) of
      Inl e \<Rightarrow> False
    | Inr A \<Rightarrow>
        foldr max (map (\<lambda>r. r ! 0) (segment_rows (node_values A [[0, - 400000]]) [0 :: nat] 0))
          float32_lowest = - 200000
        \<and> (\<exists>pre. GraphAggregator_build A [[0, - 400000]] [0] 1 = Inr pre \<and> pre ! 0 ! 0 = 0))"
proof -
  obtain A where i: "GraphAggregator_init [1] None True ''max'' (\<lambda>r. r) (\<lambda>r. r) = Inr A"
    by (simp add: GraphAggregator_init_def AGGREGATION_TYPE_def)
  have t: "\<not> has_graph_transform A" and d: "graph_state_dim A = 1"
    and nv: "node_values A [[0, - 400000]] = [[- 200000]]"
    using i by (auto simp: aggregator_eval)
  have m: "foldr max (map (\<lambda>r. r ! 0) (segment_rows (node_values A [[0, - 400000]]) [0 :: nat] 0))
          float32_lowest = - 200000"
    by (simp add: nv segment_rows_def float32_lowest_def)
  have "\<exists>pre. GraphAggregator_build A [[0, - 400000]] [0] 1 = Inr pre \<and> pre ! 0 ! 0 = 0"
    using max_aggregation_threshold_zeroes_small_values
            [OF i, of "[0]" "[[0, - 400000]]" 1 0 0] t d m
    by (auto simp: nv)
  then show ?thesis using i m by simp
qed

section \<open>Claims: propagation layer\<close>

lemma gather_ok:
  "list_all (\<lambda>i. i < length ps) idx \<Longrightarrow> gather ps idx = Inr (map ((!) ps) idx)"
  by (simp add: gather_def)

lemma graph_prop_once_no_incoming:
  assumes "list_all (\<lambda>k. k < length ns) from_idx" and "list_all (\<lambda>k. k < length ns) to_idx"
    and "length from_idx = length to_idx"
    and "case ef of None \<Rightarrow> True | Some m \<Rightarrow> length m = length to_idx"
    and "i < length ns" and "i \<notin> set to_idx"
  shows "\<exists>agg. graph_prop_once d ns from_idx to_idx net unsorted_segment_sum ef = Inr agg
           \<and> length agg = length ns \<and> agg ! i = zeros d"
proof -
  obtain edge_inputs where c:
    "concat_last (map ((!) ns) from_idx # map ((!) ns) to_idx
        # (case ef of None \<Rightarrow> [] | Some m \<Rightarrow> [m])) = Inr edge_inputs"
    and l: "length edge_inputs = length to_idx"
    using assms(3,4) by (cases ef) auto
  have ok: "segment_ids_ok (map net edge_inputs) to_idx (length ns)"
    using l assms(2) by (simp add: segment_ids_ok_def)
  show ?thesis
    using assms(5) segment_rows_empty [OF assms(6), of "map net edge_inputs"]
    by (simp add: graph_prop_once_def gather_ok assms(1,2) c unsorted_segment_sum_def
          segment_reduce_def ok reduce_sum_rows_def del: concat_last.simps)
qed

lemma vadd_zeros: "vadd (zeros d) (zeros d) = zeros d"
  by (induction d) (simp_all add: vadd_def zeros_def)

text \<open>
  C6 (as amended). Let node \<open>i\<close> have no incoming edge: no entry of \<open>to_idx\<close> is \<open>i\<close>, nor
  of \<open>from_idx\<close> when the reverse direction is enabled. Then the reduction
  (\<open>graph_prop_once\<close>) gives node \<open>i\<close> the all-zeros vector, not an error, in every
  configuration. When layer normalisation is off (the default), that zero vector is the
  aggregated message the layer hands to the node update, and under the \<open>residual\<close> rule
  the new state of \<open>i\<close> is its old state plus the node-update network applied to the
  concatenation of the zero message and the old state.
\<close>

theorem zero_incoming_edges_zero_message:
  assumes "list_all (\<lambda>k. k < length node_states) from_idx"
    and "list_all (\<lambda>k. k < length node_states) to_idx"
    and "length from_idx = length to_idx"
    and "case edge_features of None \<Rightarrow> True | Some m \<Rightarrow> length m = length to_idx"
    and "i < length node_states" and "i \<notin> set to_idx"
    and "use_reverse_direction layer \<longrightarrow> i \<notin> set from_idx"
  shows "(\<exists>m. graph_prop_once d node_states from_idx to_idx net unsorted_segment_sum
               edge_features = Inr m \<and> m ! i = zeros d)
       \<and> (\<not> layer_norm layer \<longrightarrow>
           (\<exists>agg. compute_aggregated_messages layer node_states from_idx to_idx edge_features
                    = Inr agg
                 \<and> length agg = length node_states
                 \<and> agg ! i = zeros (last (edge_hidden_sizes layer))
                 \<and> (node_update_type layer = ''residual'' \<longrightarrow>
                     (\<exists>new. GraphPropLayer_build layer node_states from_idx to_idx
                              edge_features None = Inr new
                          \<and> new ! i = vadd (node_states ! i)
                                (node_mlp (params layer)
                                   (zeros (last (edge_hidden_sizes layer)) @ node_states ! i))))))"
proof (intro conjI impI)
  show "\<exists>m. graph_prop_once d node_states from_idx to_idx net unsorted_segment_sum
               edge_features = Inr m \<and> m ! i = zeros d"
    using graph_prop_once_no_incoming [OF assms(1-6), of d net] by blast
next
  assume ln: "\<not> layer_norm layer"
  let ?d = "last (edge_hidden_sizes layer)"
  obtain fwd where fwd:
    "graph_prop_once ?d node_states from_idx to_idx (message_mlp (params layer))
       unsorted_segment_sum edge_features = Inr fwd"
    "length fwd = length node_states" "fwd ! i = zeros ?d"
    using graph_prop_once_no_incoming [OF assms(1-6)] by blast
  have "\<exists>agg. compute_aggregated_messages layer node_states from_idx to_idx edge_features
                  = Inr agg
             \<and> length agg = length node_states \<and> agg ! i = zeros ?d"
  proof (cases "use_reverse_direction layer")
    case False
    then show ?thesis
      using fwd ln by (simp add: compute_aggregated_messages_def Let_def)
  next
    case True
    then have nf: "i \<notin> set from_idx" using assms(7) by simp
    have ef: "case edge_features of None \<Rightarrow> True | Some m \<Rightarrow> length m = length from_idx"
      using assms(3,4) by (simp split: option.splits)
    obtain rev where rev:
      "graph_prop_once ?d node_states to_idx from_idx
         (if reverse_dir_param_different layer then reverse_message_mlp (params layer)
          else message_mlp (params layer))
         unsorted_segment_sum edge_features = Inr rev"
      "length rev = length node_states" "rev ! i = zeros ?d"
      using graph_prop_once_no_incoming
              [OF assms(2) assms(1) assms(3) [symmetric] ef assms(5) nf]
      by blast
    show ?thesis
      using True fwd rev ln assms(5)
      by (simp add: compute_aggregated_messages_def Let_def vadd_zeros)
  qed
  then obtain agg where agg:
    "compute_aggregated_messages layer node_states from_idx to_idx edge_features = Inr agg"
    "length agg = length node_states" "agg ! i = zeros ?d"
    by blast
  have res: "\<exists>new. GraphPropLayer_build layer node_states from_idx to_idx
                  edge_features None = Inr new
              \<and> new ! i = vadd (node_states ! i)
                    (node_mlp (params layer) (zeros ?d @ node_states ! i))"
    if "node_update_type layer = ''residual''"
    using that agg ln assms(5)
    by (simp add: GraphPropLayer_build_def compute_node_update_def Let_def)
  show "\<exists>agg. compute_aggregated_messages layer node_states from_idx to_idx edge_features
                    = Inr agg
                 \<and> length agg = length node_states
                 \<and> agg ! i = zeros (last (edge_hidden_sizes layer))
                 \<and> (node_update_type layer = ''residual'' \<longrightarrow>
                     (\<exists>new. GraphPropLayer_build layer node_states from_idx to_idx
                              edge_features None = Inr new
                          \<and> new ! i = vadd (node_states ! i)
                                (node_mlp (params layer)
                                   (zeros (last (edge_hidden_sizes layer)) @ node_states ! i))))"
    using agg res by auto
qed

lemmas layer_eval =
  GraphPropLayer_init_def GraphPropLayer_build_def compute_aggregated_messages_def
  compute_node_update_def graph_prop_once_def gather_def unsorted_segment_sum_def
  segment_reduce_def segment_ids_ok_def segment_rows_def reduce_sum_rows_def
  vadd_def zeros_def LayerNorm_def reduce_mean_def upt_rec

theorem zero_incoming_edges_zero_message_witness:
  "(\<exists>agg. compute_aggregated_messages
            (GraphPropLayer_init 1 [1] [] ''residual'' True True False
               \<lparr> message_mlp = (\<lambda>r. [sum_list r]), reverse_message_mlp = (\<lambda>r. [sum_list r]),
                 message_layer_norm = \<lparr> ln_gamma = [1], ln_beta = [0] \<rparr>,
                 node_mlp = (\<lambda>r. [sum_list r]),
                 node_layer_norm = \<lparr> ln_gamma = [1], ln_beta = [0] \<rparr>,
                 node_gru = (\<lambda>x h. h) \<rparr>)
            [[5], [7]] [0] [0] None = Inr agg \<and> agg ! 1 = [0])
   \<and> (\<exists>new. GraphPropLayer_build
            (GraphPropLayer_init 1 [1] [] ''residual'' True True False
               \<lparr> message_mlp = (\<lambda>r. [sum_list r]), reverse_message_mlp = (\<lambda>r. [sum_list r]),
                 message_layer_norm = \<lparr> ln_gamma = [1], ln_beta = [0] \<rparr>,
                 node_mlp = (\<lambda>r. [sum_list r]),
                 node_layer_norm = \<lparr> ln_gamma = [1], ln_beta = [0] \<rparr>,
                 node_gru = (\<lambda>x h. h) \<rparr>)
            [[5], [7]] [0] [0] None None = Inr new \<and> new ! 1 = [14])"
  using zero_incoming_edges_zero_message
          [of "[[5], [7]]" "[0]" "[0]" None 1
              "GraphPropLayer_init 1 [1] [] ''residual'' True True False
               \<lparr> message_mlp = (\<lambda>r. [sum_list r]), reverse_message_mlp = (\<lambda>r. [sum_list r]),
                 message_layer_norm = \<lparr> ln_gamma = [1], ln_beta = [0] \<rparr>,
                 node_mlp = (\<lambda>r. [sum_list r]),
                 node_layer_norm = \<lparr> ln_gamma = [1], ln_beta = [0] \<rparr>,
                 node_gru = (\<lambda>x h. h) \<rparr>" 1 "\<lambda>r. r"]
  by (simp add: GraphPropLayer_init_def zeros_def vadd_def) blast

text \<open>
  C6 as stated does not hold when \<open>layer_norm\<close> is on: the layer normalises the
  aggregated messages, and the norm of the zero vector is the learned offset \<open>beta\<close>.
  Here the only node has no edge at all and its aggregated message is \<open>[1]\<close>.
\<close>

theorem zero_incoming_edges_layer_norm_counterexample:
  "0 \<notin> set ([] :: nat list)
   \<and> compute_aggregated_messages
        (GraphPropLayer_init 1 [1] [] ''residual'' True True True
           \<lparr> message_mlp = (\<lambda>r. [sum_list r]), reverse_message_mlp = (\<lambda>r. [sum_list r]),
             message_layer_norm = \<lparr> ln_gamma = [1], ln_beta = [1] \<rparr>,
             node_mlp = (\<lambda>r. [sum_list r]),
             node_layer_norm = \<lparr> ln_gamma = [1], ln_beta = [0] \<rparr>,
             node_gru = (\<lambda>x h. h) \<rparr>)
        [[5]] [] [] None = Inr [[1]]
   \<and> [[1]] ! 0 \<noteq> zeros 1"
  by (simp add: layer_eval)

section \<open>Claims: cross-graph attention\<close>

subsection \<open>Blocks of a sorted tagging\<close>

lemma filter_tag_step:
  "sorted (map snd zs) \<Longrightarrow>
   filter (\<lambda>z. snd z < n) zs @ filter (\<lambda>z. snd z = n) zs = filter (\<lambda>z. snd z < Suc n) zs"
proof (induction zs)
  case Nil
  then show ?case by simp
next
  case (Cons z zs)
  then have ih: "filter (\<lambda>z. snd z < n) zs @ filter (\<lambda>z. snd z = n) zs
                   = filter (\<lambda>z. snd z < Suc n) zs"
    and ge: "\<forall>w \<in> set zs. snd z \<le> snd w"
    by auto
  show ?case
  proof (cases "snd z < n")
    case True
    then show ?thesis using ih by simp
  next
    case False
    then have "filter (\<lambda>z. snd z < n) zs = []"
      using ge by (auto simp: filter_empty_conv)
    then show ?thesis using ih False by auto
  qed
qed

lemma concat_nth_aligned:
  assumes "length Bs = length Rs"
    and "\<forall>g < length Bs. length (Rs ! g) = length (Bs ! g)"
    and "k < length (concat Bs)"
  shows "\<exists>g p. g < length Bs \<and> p < length (Bs ! g)
           \<and> k = length (concat (take g Bs)) + p
           \<and> concat Bs ! k = Bs ! g ! p \<and> concat Rs ! k = Rs ! g ! p"
  using assms
proof (induction Bs arbitrary: Rs k)
  case Nil
  then show ?case by simp
next
  case (Cons B Bs)
  then obtain R Rs' where Rs: "Rs = R # Rs'" by (cases Rs) auto
  have lenR: "length R = length B" using Cons.prems(2) Rs by auto
  show ?case
  proof (cases "k < length B")
    case True
    then have "0 < length (B # Bs) \<and> k < length ((B # Bs) ! 0)
        \<and> k = length (concat (take 0 (B # Bs))) + k
        \<and> concat (B # Bs) ! k = (B # Bs) ! 0 ! k \<and> concat Rs ! k = Rs ! 0 ! k"
      using lenR Rs by (simp add: nth_append)
    then show ?thesis by blast
  next
    case False
    have l: "length Bs = length Rs'" using Cons.prems(1) Rs by simp
    have a: "\<forall>g < length Bs. length (Rs' ! g) = length (Bs ! g)"
      using Cons.prems(2) Rs by auto
    have k: "k - length B < length (concat Bs)" using Cons.prems(3) False by simp
    from Cons.IH [OF l a k] obtain g p where gp:
      "g < length Bs" "p < length (Bs ! g)" "k - length B = length (concat (take g Bs)) + p"
      "concat Bs ! (k - length B) = Bs ! g ! p" "concat Rs' ! (k - length B) = Rs' ! g ! p"
      by blast
    have "Suc g < length (B # Bs) \<and> p < length ((B # Bs) ! Suc g)
        \<and> k = length (concat (take (Suc g) (B # Bs))) + p
        \<and> concat (B # Bs) ! k = (B # Bs) ! Suc g ! p \<and> concat Rs ! k = Rs ! Suc g ! p"
      using gp False lenR Rs by (simp add: nth_append)
    then show ?thesis by blast
  qed
qed

lemma reduce_sum_rows_nth:
  assumes "list_all (\<lambda>r. length r = d) rows" and "j < d"
  shows "reduce_sum_rows d rows ! j = (\<Sum>q<length rows. rows ! q ! j)
         \<and> length (reduce_sum_rows d rows) = d"
  using assms
proof (induction rows)
  case Nil
  then show ?case by (simp add: reduce_sum_rows_def zeros_def)
next
  case (Cons r rows)
  then have ih: "reduce_sum_rows d rows ! j = (\<Sum>q<length rows. rows ! q ! j)"
    and l: "length (reduce_sum_rows d rows) = d" and r: "length r = d"
    by simp_all
  have "reduce_sum_rows d (r # rows) = vadd r (reduce_sum_rows d rows)"
    by (simp add: reduce_sum_rows_def)
  moreover have "(\<Sum>q<length (r # rows). (r # rows) ! q ! j)
                   = r ! j + (\<Sum>q<length rows. rows ! q ! j)"
    by (simp add: sum.lessThan_Suc_shift del: sum.lessThan_Suc)
  ultimately show ?case
    using ih l r Cons.prems(2) by (simp add: vadd_def del: sum.lessThan_Suc)
qed

lemma matmul_nth:
  assumes "p < length a" and "length (a ! p) = length b"
    and "list_all (\<lambda>r. length r = d) b" and "j < d"
  shows "matmul d a b ! p ! j = (\<Sum>q<length b. a ! p ! q * b ! q ! j)
         \<and> length (matmul d a b ! p) = d"
proof -
  let ?rows = "map2 vscale (a ! p) b"
  have w: "list_all (\<lambda>r. length r = d) ?rows"
    using assms(3) by (auto simp: list_all_iff vscale_def dest!: set_zip_rightD)
  have len: "length ?rows = length b" using assms(2) by simp
  have e: "?rows ! q ! j = a ! p ! q * b ! q ! j" if "q < length b" for q
  proof -
    have "length (b ! q) = d" using assms(3) that by (simp add: list_all_length)
    then show ?thesis using that assms(2,4) by (simp add: vscale_def)
  qed
  have m: "matmul d a b ! p = reduce_sum_rows d ?rows"
    using assms(1) by (simp add: matmul_def)
  have "(\<Sum>q<length ?rows. ?rows ! q ! j) = (\<Sum>q<length b. a ! p ! q * b ! q ! j)"
    unfolding len by (intro sum.cong refl) (use e in blast)
  then show ?thesis
    using reduce_sum_rows_nth [OF w assms(4)] unfolding m by metis
qed

lemma softmax_vec_nth:
  "q < length r \<Longrightarrow> softmax_vec r ! q = exp (r ! q) / (\<Sum>q'<length r. exp (r ! q'))"
  by (simp add: softmax_vec_def sum_list_map_nth)

lemma softmax_axis1_nth:
  assumes "p < length a" and "length (a ! p) = m" and "q < m"
  shows "softmax_axis1 a ! p ! q = spec_attention_weight_x a m p q"
  using assms by (simp add: softmax_axis1_def softmax_vec_nth spec_attention_weight_x_def)

lemma softmax_axis0_transposed_nth:
  assumes "p < length a" and "q < m"
  shows "transpose_mat m (softmax_axis0 m a) ! q ! p = spec_attention_weight_y a (length a) p q"
  using assms
  by (simp add: softmax_axis0_def transpose_mat_def softmax_vec_nth
        spec_attention_weight_y_def)

lemma similarity_shape:
  assumes "PAIRWISE_SIMILARITY_FUNCTION name = Some sim"
  shows "length (sim x y) = length x \<and> (\<forall>p < length x. length (sim x y ! p) = length y)"
proof -
  have "sim = pairwise_euclidean_similarity \<or> sim = pairwise_dot_product_similarity
          \<or> sim = pairwise_cosine_similarity"
    using assms by (auto simp: PAIRWISE_SIMILARITY_FUNCTION_def split: if_splits)
  then show ?thesis
    by (auto simp: pairwise_euclidean_similarity_def pairwise_dot_product_similarity_def
          pairwise_cosine_similarity_def matmul_transpose_b_def l2_normalize_def Let_def)
qed

lemma compute_cross_attention_entries:
  assumes shape: "length (sim x y) = length x"
      "\<forall>p < length x. length (sim x y ! p) = length y"
    and wx: "list_all (\<lambda>r. length r = d) x" and wy: "list_all (\<lambda>r. length r = d) y"
    and j: "j < d"
  shows "length (fst (compute_cross_attention d x y sim)) = length x"
    and "length (snd (compute_cross_attention d x y sim)) = length y"
    and "p < length x \<Longrightarrow>
           fst (compute_cross_attention d x y sim) ! p ! j = spec_attention_x x y sim p j
           \<and> length (fst (compute_cross_attention d x y sim) ! p) = d"
    and "q < length y \<Longrightarrow>
           snd (compute_cross_attention d x y sim) ! q ! j = spec_attention_y x y sim q j
           \<and> length (snd (compute_cross_attention d x y sim) ! q) = d"
proof -
  let ?a = "sim x y"
  show "length (fst (compute_cross_attention d x y sim)) = length x"
    using shape(1) by (simp add: compute_cross_attention_def Let_def matmul_def softmax_axis1_def)
  show "length (snd (compute_cross_attention d x y sim)) = length y"
    by (simp add: compute_cross_attention_def Let_def matmul_def transpose_mat_def)
  {
    assume p: "p < length x"
    then have pa: "p < length ?a" and row: "length (?a ! p) = length y"
      using shape by simp_all
    have l: "length (softmax_axis1 ?a ! p) = length y"
      using pa row by (simp add: softmax_axis1_def softmax_vec_def)
    have "matmul d (softmax_axis1 ?a) y ! p ! j
            = (\<Sum>q<length y. softmax_axis1 ?a ! p ! q * y ! q ! j)
          \<and> length (matmul d (softmax_axis1 ?a) y ! p) = d"
      using pa by (intro matmul_nth [OF _ l wy j]) (simp add: softmax_axis1_def)
    moreover have "(\<Sum>q<length y. softmax_axis1 ?a ! p ! q * y ! q ! j)
            = spec_attention_x x y sim p j"
      unfolding spec_attention_x_def
      by (intro sum.cong refl) (simp add: softmax_axis1_nth [OF pa row])
    ultimately show "fst (compute_cross_attention d x y sim) ! p ! j
            = spec_attention_x x y sim p j
          \<and> length (fst (compute_cross_attention d x y sim) ! p) = d"
      by (simp add: compute_cross_attention_def Let_def)
  }
  {
    assume q: "q < length y"
    let ?t = "transpose_mat (length y) (softmax_axis0 (length y) ?a)"
    have qt: "q < length ?t" using q by (simp add: transpose_mat_def)
    have l: "length (?t ! q) = length x"
      using q shape(1) by (simp add: transpose_mat_def softmax_axis0_def)
    have "matmul d ?t x ! q ! j = (\<Sum>p<length x. ?t ! q ! p * x ! p ! j)
          \<and> length (matmul d ?t x ! q) = d"
      by (rule matmul_nth [OF qt l wx j])
    moreover have "(\<Sum>p<length x. ?t ! q ! p * x ! p ! j) = spec_attention_y x y sim q j"
      unfolding spec_attention_y_def
      using softmax_axis0_transposed_nth [of _ ?a q "length y"] q shape(1)
      by (intro sum.cong refl) simp
    ultimately show "snd (compute_cross_attention d x y sim) ! q ! j
            = spec_attention_y x y sim q j
          \<and> length (snd (compute_cross_attention d x y sim) ! q) = d"
      by (simp add: compute_cross_attention_def Let_def)
  }
qed

lemma concat_tag_blocks_upto:
  assumes "sorted (map snd zs)"
  shows "concat (map (\<lambda>g. filter (\<lambda>z. snd z = g) zs) [0..<n]) = filter (\<lambda>z. snd z < n) zs"
proof (induction n)
  case 0
  then show ?case by simp
next
  case (Suc n)
  have "concat (map (\<lambda>g. filter (\<lambda>z. snd z = g) zs) [0..<Suc n])
          = concat (map (\<lambda>g. filter (\<lambda>z. snd z = g) zs) [0..<n]) @ filter (\<lambda>z. snd z = n) zs"
    by simp
  also have "\<dots> = filter (\<lambda>z. snd z < Suc n) zs"
    by (simp only: Suc filter_tag_step [OF assms])
  finally show ?case .
qed

lemma pair_results_concat:
  assumes "2 * h \<le> n"
  shows "concat (map (pair_results d (map (segment_rows data ids) [0..<n]) sim)
                   (map (\<lambda>k. 2 * k) [0..<h]))
           = map (block_attention d data ids sim) [0..<2 * h]"
  using assms
proof (induction h)
  case 0
  then show ?case by simp
next
  case (Suc h)
  let ?P = "pair_results d (map (segment_rows data ids) [0..<n]) sim"
  let ?B = "block_attention d data ids sim"
  from Suc have ih: "concat (map ?P (map (\<lambda>k. 2 * k) [0..<h])) = map ?B [0..<2 * h]"
    and b: "2 * h < n" "2 * h + 1 < n"
    by simp_all
  have pr: "?P (2 * h) = [?B (2 * h), ?B (2 * h + 1)]"
    using b by (simp add: pair_results_def block_attention_def Let_def case_prod_unfold)
  have u: "[0..<2 * Suc h] = [0..<2 * h] @ [2 * h, 2 * h + 1]"
    by (simp add: upt_rec [of "2 * h"])
  have "concat (map ?P (map (\<lambda>k. 2 * k) [0..<Suc h]))
          = concat (map ?P (map (\<lambda>k. 2 * k) [0..<h])) @ ?P (2 * h)"
    by simp
  also have "\<dots> = map ?B [0..<2 * h] @ [?B (2 * h), ?B (2 * h + 1)]"
    by (simp only: ih pr)
  also have "\<dots> = map ?B [0..<2 * Suc h]"
    unfolding u by simp
  finally show ?case .
qed

lemma batch_block_pair_attention_blocks:
  assumes "even n" and "0 < n" and "segment_ids_ok data ids n"
    and "PAIRWISE_SIMILARITY_FUNCTION name = Some sim"
  shows "batch_block_pair_attention d data ids n name
           = Inr (concat (map (block_attention d data ids sim) [0..<n]))"
proof -
  let ?P = "pair_results d (map (segment_rows data ids) [0..<n]) sim"
  have h: "2 * (n div 2) = n" using assms(1) by simp
  have c: "concat (map ?P (map (\<lambda>k. 2 * k) [0..<n div 2]))
           = map (block_attention d data ids sim) [0..<n]"
    using pair_results_concat [of "n div 2" n d data ids sim] h by simp
  have ne: "map (block_attention d data ids sim) [0..<n] \<noteq> []"
    using assms(2) by simp
  have "batch_block_pair_attention d data ids n name
          = concat_first (concat (map ?P (map (\<lambda>k. 2 * k) [0..<n div 2])))"
    using assms(1,3,4)
    by (simp add: batch_block_pair_attention_def get_pairwise_similarity_def
          dynamic_partition_def)
  also have "\<dots> = concat_first (map (block_attention d data ids sim) [0..<n])"
    by (simp only: c)
  also have "\<dots> = Inr (concat (map (block_attention d data ids sim) [0..<n]))"
    using ne by (simp only: concat_first_def if_False)
  finally show ?thesis .
qed

lemma segment_rows_width:
  "list_all (\<lambda>r. length r = d) data \<Longrightarrow> list_all (\<lambda>r. length r = d) (segment_rows data ids g)"
  by (auto simp: segment_rows_def list_all_iff dest: set_zip_leftD)

lemma block_attention_entries:
  assumes "PAIRWISE_SIMILARITY_FUNCTION name = Some sim"
    and "list_all (\<lambda>r. length r = d) data" and "j < d"
  shows "length (block_attention d data ids sim g) = length (segment_rows data ids g)"
    and "p < length (segment_rows data ids g) \<Longrightarrow>
         length (block_attention d data ids sim g ! p) = d
         \<and> block_attention d data ids sim g ! p ! j =
             (if even g
              then spec_attention_x (segment_rows data ids (2 * (g div 2)))
                     (segment_rows data ids (2 * (g div 2) + 1)) sim p j
              else spec_attention_y (segment_rows data ids (2 * (g div 2)))
                     (segment_rows data ids (2 * (g div 2) + 1)) sim p j)"
proof -
  have ev: "2 * (g div 2) = g" if "even g" using that by simp
  have od: "2 * (g div 2) = g - 1" "2 * (g div 2) + 1 = g" if "odd g"
    using that by (auto elim: oddE)
  have sh: "length (sim x y) = length x" "\<forall>p < length x. length (sim x y ! p) = length y"
    for x y
    using similarity_shape [OF assms(1), of x y] by simp_all
  have w: "list_all (\<lambda>r. length r = d) (segment_rows data ids g')" for g'
    by (rule segment_rows_width [OF assms(2)])
  note e = compute_cross_attention_entries [where sim = sim and d = d and j = j]
  show "length (block_attention d data ids sim g) = length (segment_rows data ids g)"
    using e(1) [OF sh w [of g] w [of "g + 1"] assms(3)]
          e(2) [OF sh w [of "g - 1"] w [of g] assms(3)]
    by (simp add: block_attention_def)
  assume p: "p < length (segment_rows data ids g)"
  show "length (block_attention d data ids sim g ! p) = d
         \<and> block_attention d data ids sim g ! p ! j =
             (if even g
              then spec_attention_x (segment_rows data ids (2 * (g div 2)))
                     (segment_rows data ids (2 * (g div 2) + 1)) sim p j
              else spec_attention_y (segment_rows data ids (2 * (g div 2)))
                     (segment_rows data ids (2 * (g div 2) + 1)) sim p j)"
  proof (cases "even g")
    case True
    then show ?thesis
      using e(3) [OF sh w [of g] w [of "g + 1"] assms(3) p]
      by (simp add: block_attention_def ev)
  next
    case False
    then show ?thesis
      using e(4) [OF sh w [of "g - 1"] w [of g] assms(3) p]
      by (simp add: block_attention_def od)
  qed
qed

lemma cross_attention_aligned:
  assumes srt: "sorted graph_idx" and len: "length graph_idx = length node_states"
    and rng: "list_all (\<lambda>t. t < n_graphs) graph_idx"
    and ev: "even n_graphs" and pos: "0 < n_graphs"
    and sim: "PAIRWISE_SIMILARITY_FUNCTION similarity = Some sim"
    and wid: "list_all (\<lambda>r. length r = d) node_states"
    and k: "k < length node_states" and j: "j < d"
  shows "\<exists>cross. batch_block_pair_attention d node_states graph_idx n_graphs similarity
                   = Inr cross
           \<and> length cross = length node_states
           \<and> length (cross ! k) = d
           \<and> k - length (filter (\<lambda>t. t < graph_idx ! k) graph_idx)
               < length (segment_rows node_states graph_idx (graph_idx ! k))
           \<and> node_states ! k
               = segment_rows node_states graph_idx (graph_idx ! k)
                   ! (k - length (filter (\<lambda>t. t < graph_idx ! k) graph_idx))
           \<and> cross ! k ! j =
               (if even (graph_idx ! k)
                then spec_attention_x
                       (segment_rows node_states graph_idx (2 * (graph_idx ! k div 2)))
                       (segment_rows node_states graph_idx (2 * (graph_idx ! k div 2) + 1))
                       sim (k - length (filter (\<lambda>t. t < graph_idx ! k) graph_idx)) j
                else spec_attention_y
                       (segment_rows node_states graph_idx (2 * (graph_idx ! k div 2)))
                       (segment_rows node_states graph_idx (2 * (graph_idx ! k div 2) + 1))
                       sim (k - length (filter (\<lambda>t. t < graph_idx ! k) graph_idx)) j)"
proof -
  let ?zs = "zip node_states graph_idx"
  let ?Bs = "map (\<lambda>g. filter (\<lambda>z. snd z = g) ?zs) [0..<n_graphs]"
  let ?R = "block_attention d node_states graph_idx sim"
  let ?Rs = "map ?R [0..<n_graphs]"
  let ?cross = "concat ?Rs"
  have ok: "segment_ids_ok node_states graph_idx n_graphs"
    using len rng by (simp add: segment_ids_ok_def)
  have res: "batch_block_pair_attention d node_states graph_idx n_graphs similarity
               = Inr ?cross"
    by (rule batch_block_pair_attention_blocks [OF ev pos ok sim])
  have szs: "sorted (map snd ?zs)"
    using srt len by (simp add: map_snd_zip)
  have upto: "concat (map (\<lambda>g. filter (\<lambda>z. snd z = g) ?zs) [0..<n])
                = filter (\<lambda>z. snd z < n) ?zs" for n
    by (rule concat_tag_blocks_upto [OF szs])
  have all: "filter (\<lambda>z. snd z < n_graphs) ?zs = ?zs"
    using rng by (auto simp: list_all_iff filter_id_conv dest: set_zip_rightD)
  have cB: "concat ?Bs = ?zs"
    using upto [of n_graphs] all by simp
  have blk: "segment_rows node_states graph_idx g = map fst (filter (\<lambda>z. snd z = g) ?zs)"
    for g
    by (simp add: segment_rows_def)
  note be = block_attention_entries [OF sim wid j]
  have lens: "\<forall>g < length ?Bs. length (?Rs ! g) = length (?Bs ! g)"
    using be(1) [of graph_idx] by (simp add: blk)
  have kB: "k < length (concat ?Bs)"
    using k len by (simp only: cB) simp
  from concat_nth_aligned [OF _ lens kB]
  obtain g p where gp: "g < length ?Bs" "p < length (?Bs ! g)"
    "k = length (concat (take g ?Bs)) + p"
    "concat ?Bs ! k = ?Bs ! g ! p" "?cross ! k = ?Rs ! g ! p"
    by auto
  have g: "g < n_graphs" using gp(1) by simp
  have Bg: "?Bs ! g = filter (\<lambda>z. snd z = g) ?zs" using g by simp
  have Rg: "?Rs ! g = ?R g" using g by simp
  have zk: "?zs ! k = (node_states ! k, graph_idx ! k)"
    using k len by simp
  have mem: "?Bs ! g ! p \<in> set (filter (\<lambda>z. snd z = g) ?zs)"
    using gp(2) unfolding Bg by (rule nth_mem)
  have eq: "(node_states ! k, graph_idx ! k) = filter (\<lambda>z. snd z = g) ?zs ! p"
    using gp(4) unfolding cB zk Bg .
  have "snd (?Bs ! g ! p) = g"
    using mem by simp
  then have tag: "graph_idx ! k = g"
    using eq unfolding Bg by (metis snd_conv)
  have pl: "p < length (segment_rows node_states graph_idx g)"
    using gp(2) unfolding Bg blk by simp
  have row: "node_states ! k = segment_rows node_states graph_idx g ! p"
    using gp(2) eq unfolding Bg blk by (metis fst_conv nth_map)
  have "take g ?Bs = map (\<lambda>g. filter (\<lambda>z. snd z = g) ?zs) [0..<g]"
    using g by (simp add: take_map)
  then have "length (concat (take g ?Bs)) = length (filter (\<lambda>z. snd z < g) ?zs)"
    using upto [of g] by simp
  also have "\<dots> = length (filter (\<lambda>t. t < g) (map snd ?zs))"
    by (simp add: filter_map comp_def)
  also have "\<dots> = length (filter (\<lambda>t. t < g) graph_idx)"
    using len by (simp add: map_snd_zip)
  finally have off: "p = k - length (filter (\<lambda>t. t < g) graph_idx)"
    using gp(3) by simp
  have lc: "length ?cross = length node_states"
  proof -
    have "length (?R g) = length (filter (\<lambda>z. snd z = g) ?zs)" for g
      using be(1) [of graph_idx g] by (simp add: blk)
    then have "length ?cross = length (concat ?Bs)"
      by (simp add: length_concat comp_def)
    then show ?thesis using len by (simp only: cB) simp
  qed
  have ent: "length (?cross ! k) = d
      \<and> ?cross ! k ! j =
          (if even g
           then spec_attention_x (segment_rows node_states graph_idx (2 * (g div 2)))
                  (segment_rows node_states graph_idx (2 * (g div 2) + 1)) sim p j
           else spec_attention_y (segment_rows node_states graph_idx (2 * (g div 2)))
                  (segment_rows node_states graph_idx (2 * (g div 2) + 1)) sim p j)"
    using be(2) [OF pl] unfolding gp(5) Rg .
  show ?thesis
    using res lc ent pl row unfolding tag off by blast
qed

text \<open>
  C3 (as amended). Let the nodes be listed graph by graph in ascending order of their
  tags, as the batches of this program are packed: \<open>graph_idx\<close> is
  non-decreasing with one tag per node, every tag is below \<open>n_graphs\<close>, and \<open>n_graphs\<close> is
  even and positive. For every node \<open>k\<close>, in graph \<open>g\<close> at position \<open>p\<close> of its block, with
  \<open>x\<close> and \<open>y\<close> the blocks of the pair of \<open>g\<close> (of any sizes, equal or not):
  row \<open>k\<close> of the concatenated attention output is the attention of that very node
  (\<open>attention_x\<^sub>p\<close>, the softmax over \<open>q\<close> weighting the rows of \<open>y\<close>, when \<open>g\<close> is even;
  \<open>attention_y\<^sub>p\<close>, the softmax over the other axis weighting the rows of \<open>x\<close>, when \<open>g\<close>
  is odd); the output has as many rows as the input and rows of the same width; and the
  tensor fed into the node update beside the aggregated messages is, row by row, the
  node state minus its attention.
\<close>

theorem cross_graph_attention_message:
  assumes "sorted graph_idx" and "length graph_idx = length node_states"
    and "list_all (\<lambda>t. t < n_graphs) graph_idx"
    and "even n_graphs" and "0 < n_graphs"
    and "PAIRWISE_SIMILARITY_FUNCTION similarity = Some sim"
    and "list_all (\<lambda>r. length r = node_state_dim layer) node_states"
    and "k < length node_states" and "j < node_state_dim layer"
  shows "\<exists>cross att.
           batch_block_pair_attention (node_state_dim layer) node_states graph_idx n_graphs
             similarity = Inr cross
         \<and> length cross = length node_states
         \<and> length (cross ! k) = length (node_states ! k)
         \<and> k - length (filter (\<lambda>t. t < graph_idx ! k) graph_idx)
             < length (segment_rows node_states graph_idx (graph_idx ! k))
         \<and> node_states ! k
             = segment_rows node_states graph_idx (graph_idx ! k)
                 ! (k - length (filter (\<lambda>t. t < graph_idx ! k) graph_idx))
         \<and> cross ! k ! j =
             (if even (graph_idx ! k)
              then spec_attention_x
                     (segment_rows node_states graph_idx (2 * (graph_idx ! k div 2)))
                     (segment_rows node_states graph_idx (2 * (graph_idx ! k div 2) + 1))
                     sim (k - length (filter (\<lambda>t. t < graph_idx ! k) graph_idx)) j
              else spec_attention_y
                     (segment_rows node_states graph_idx (2 * (graph_idx ! k div 2)))
                     (segment_rows node_states graph_idx (2 * (graph_idx ! k div 2) + 1))
                     sim (k - length (filter (\<lambda>t. t < graph_idx ! k) graph_idx)) j)
         \<and> attention_input layer node_states graph_idx n_graphs similarity = Inr att
         \<and> length att = length node_states
         \<and> att ! k ! j = node_states ! k ! j - cross ! k ! j
         \<and> GraphPropMatchingLayer_build layer node_states from_idx to_idx graph_idx n_graphs
               similarity edge_features node_features
             = (case compute_aggregated_messages layer node_states from_idx to_idx
                       edge_features of
                  Inl e \<Rightarrow> Inl e
                | Inr aggregated_messages \<Rightarrow>
                    compute_node_update layer node_states [aggregated_messages, att]
                      node_features)"
proof -
  from cross_attention_aligned [OF assms]
  obtain cross where c:
    "batch_block_pair_attention (node_state_dim layer) node_states graph_idx n_graphs
       similarity = Inr cross"
    "length cross = length node_states"
    "length (cross ! k) = node_state_dim layer"
    "k - length (filter (\<lambda>t. t < graph_idx ! k) graph_idx)
       < length (segment_rows node_states graph_idx (graph_idx ! k))"
    "node_states ! k
       = segment_rows node_states graph_idx (graph_idx ! k)
           ! (k - length (filter (\<lambda>t. t < graph_idx ! k) graph_idx))"
    "cross ! k ! j =
       (if even (graph_idx ! k)
        then spec_attention_x
               (segment_rows node_states graph_idx (2 * (graph_idx ! k div 2)))
               (segment_rows node_states graph_idx (2 * (graph_idx ! k div 2) + 1))
               sim (k - length (filter (\<lambda>t. t < graph_idx ! k) graph_idx)) j
        else spec_attention_y
               (segment_rows node_states graph_idx (2 * (graph_idx ! k div 2)))
               (segment_rows node_states graph_idx (2 * (graph_idx ! k div 2) + 1))
               sim (k - length (filter (\<lambda>t. t < graph_idx ! k) graph_idx)) j)"
    by blast
  let ?att = "map2 vsub node_states cross"
  have wk: "length (node_states ! k) = node_state_dim layer"
    using assms(7,8) by (simp add: list_all_length)
  have a: "attention_input layer node_states graph_idx n_graphs similarity = Inr ?att"
    by (simp add: attention_input_def c(1))
  have la: "length ?att = length node_states"
    using c(2) by simp
  have e: "?att ! k ! j = node_states ! k ! j - cross ! k ! j"
    using assms(8,9) c(2,3) wk by (simp add: vsub_def)
  have b: "GraphPropMatchingLayer_build layer node_states from_idx to_idx graph_idx n_graphs
               similarity edge_features node_features
             = (case compute_aggregated_messages layer node_states from_idx to_idx
                       edge_features of
                  Inl e \<Rightarrow> Inl e
                | Inr aggregated_messages \<Rightarrow>
                    compute_node_update layer node_states [aggregated_messages, ?att]
                      node_features)"
    by (simp add: GraphPropMatchingLayer_build_def a split: sum.splits)
  show ?thesis
    using c a la e b wk by (intro exI [of _ cross] exI [of _ ?att]) simp
qed

lemmas attention_eval =
  attention_input_def batch_block_pair_attention_def get_pairwise_similarity_def
  PAIRWISE_SIMILARITY_FUNCTION_def pairwise_dot_product_similarity_def
  matmul_transpose_b_def dynamic_partition_def segment_ids_ok_def segment_rows_def
  concat_first_def pair_results_def compute_cross_attention_def softmax_axis1_def
  softmax_axis0_def softmax_vec_def transpose_mat_def matmul_def reduce_sum_rows_def
  vadd_def vsub_def vmul_def vscale_def zeros_def upt_rec

theorem cross_graph_attention_message_witness:
  "attention_input
     (GraphPropLayer_init 2 [1] [] ''residual'' True True False
        \<lparr> message_mlp = (\<lambda>r. [sum_list r]), reverse_message_mlp = (\<lambda>r. [sum_list r]),
          message_layer_norm = \<lparr> ln_gamma = [1], ln_beta = [0] \<rparr>,
          node_mlp = (\<lambda>r. take 2 r),
          node_layer_norm = \<lparr> ln_gamma = [1, 1], ln_beta = [0, 0] \<rparr>,
          node_gru = (\<lambda>x h. h) \<rparr>)
     [[0, 1], [0, 1], [0, 3]] [0, 1, 1] 2 ''dotproduct''
   = Inr [[0, 1 - (exp 1 / (exp 1 + exp 3) * 1 + exp 3 / (exp 1 + exp 3) * 3)], [0, 0], [0, 2]]
   \<and> spec_attention_x [[0, 1]] [[0, 1], [0, 3]] pairwise_dot_product_similarity 0 1
       = exp 1 / (exp 1 + exp 3) * 1 + exp 3 / (exp 1 + exp 3) * 3"
proof -
  define L where "L = GraphPropLayer_init 2 [1] [] ''residual'' True True False
        \<lparr> message_mlp = (\<lambda>r. [sum_list r]), reverse_message_mlp = (\<lambda>r. [sum_list r]),
          message_layer_norm = \<lparr> ln_gamma = [1], ln_beta = [0] \<rparr>,
          node_mlp = (\<lambda>r. take 2 r),
          node_layer_norm = \<lparr> ln_gamma = [1, 1], ln_beta = [0, 0] \<rparr>,
          node_gru = (\<lambda>x h. h) \<rparr>"
  have d: "node_state_dim L = 2" by (simp add: L_def GraphPropLayer_init_def)
  have v: "attention_input L [[0, 1], [0, 1], [0, 3]] [0, 1, 1] 2 ''dotproduct''
             = Inr [[0, 1 - (exp 1 / (exp 1 + exp 3) * 1 + exp 3 / (exp 1 + exp 3) * 3)],
                    [0, 0], [0, 2]]"
    by (simp add: attention_eval d eval_nat_numeral)
  have s: "PAIRWISE_SIMILARITY_FUNCTION ''dotproduct'' = Some pairwise_dot_product_similarity"
    by (simp add: PAIRWISE_SIMILARITY_FUNCTION_def)
  have h: "sorted [0, 1, 1 :: nat]" "length [0, 1, 1 :: nat] = length [[0, 1], [0, 1], [0, 3 :: real]]"
    "list_all (\<lambda>t. t < 2) [0, 1, 1 :: nat]" "even (2 :: nat)" "0 < (2 :: nat)"
    "list_all (\<lambda>r. length r = node_state_dim L) [[0, 1], [0, 1], [0, 3 :: real]]"
    "0 < length [[0, 1], [0, 1], [0, 3 :: real]]" "1 < node_state_dim L"
    by (simp_all add: d)
  from cross_graph_attention_message [OF h(1-5) s h(6-8)]
  obtain cross att where c:
    "cross ! 0 ! 1 =
       (if even ([0, 1, 1 :: nat] ! 0)
        then spec_attention_x
               (segment_rows [[0, 1], [0, 1], [0, 3]] [0, 1, 1] (2 * ([0, 1, 1 :: nat] ! 0 div 2)))
               (segment_rows [[0, 1], [0, 1], [0, 3]] [0, 1, 1] (2 * ([0, 1, 1 :: nat] ! 0 div 2) + 1))
               pairwise_dot_product_similarity
               (0 - length (filter (\<lambda>t. t < [0, 1, 1 :: nat] ! 0) [0, 1, 1])) 1
        else spec_attention_y
               (segment_rows [[0, 1], [0, 1], [0, 3]] [0, 1, 1] (2 * ([0, 1, 1 :: nat] ! 0 div 2)))
               (segment_rows [[0, 1], [0, 1], [0, 3]] [0, 1, 1] (2 * ([0, 1, 1 :: nat] ! 0 div 2) + 1))
               pairwise_dot_product_similarity
               (0 - length (filter (\<lambda>t. t < [0, 1, 1 :: nat] ! 0) [0, 1, 1])) 1)"
    "attention_input L [[0, 1], [0, 1], [0, 3]] [0, 1, 1] 2 ''dotproduct'' = Inr att"
    "att ! 0 ! 1 = [[0, 1], [0, 1], [0, 3]] ! 0 ! 1 - cross ! 0 ! 1"
    by blast
  have "att = [[0, 1 - (exp 1 / (exp 1 + exp 3) * 1 + exp 3 / (exp 1 + exp 3) * 3)],
                    [0, 0], [0, 2]]" using c(2) v by simp
  then have "cross ! 0 ! 1 = exp 1 / (exp 1 + exp 3) * 1 + exp 3 / (exp 1 + exp 3) * 3"
    using c(3) by simp
  then have "spec_attention_x [[0, 1]] [[0, 1], [0, 3]] pairwise_dot_product_similarity 0 1
               = exp 1 / (exp 1 + exp 3) * 1 + exp 3 / (exp 1 + exp 3) * 3"
    using c(1) by (simp add: segment_rows_def)
  then show ?thesis using v unfolding L_def by simp
qed

text \<open>
  C3 as stated does not hold for every tagging: \<open>batch_block_pair_attention\<close> returns
  the rows block by block, whatever the order of the nodes. With the tags \<open>[1, 0]\<close> (two
  graphs of one node each, contiguous but not ascending) the first node is the only row
  of \<open>y\<close> and the second the only row of \<open>x\<close>. The attention of the first node is
  \<open>attention_y\<^sub>0 = [0, 1]\<close>, but row 0 of the output is \<open>[1, 0]\<close>, the attention of the second
  node; the tensor fed into the node update is zero in both rows instead of
  \<open>[1, - 1]\<close> and \<open>[- 1, 1]\<close>.
\<close>

theorem attention_unsorted_tags_counterexample:
  "segment_rows [[1, 0], [0, 1]] [1, 0] 0 = [[0, 1]]
   \<and> segment_rows [[1, 0], [0, 1]] [1, 0] 1 = [[1, 0]]
   \<and> spec_attention_y [[0, 1]] [[1, 0]] pairwise_dot_product_similarity 0 0 = 0
   \<and> spec_attention_y [[0, 1]] [[1, 0]] pairwise_dot_product_similarity 0 1 = 1
   \<and> batch_block_pair_attention 2 [[1, 0], [0, 1]] [1, 0] 2 ''dotproduct''
       = Inr [[1, 0], [0, 1]]
   \<and> attention_input
         (GraphPropLayer_init 2 [1] [] ''residual'' True True False (w_layers example_weights 0))
         [[1, 0], [0, 1]] [1, 0] 2 ''dotproduct''
       = Inr [[0, 0], [0, 0]]"
  by (simp add: attention_eval eval_nat_numeral spec_attention_y_def spec_attention_weight_y_def
        GraphPropLayer_init_def)

section \<open>Claims: propagation stack and configuration\<close>

subsection \<open>The layers a forward pass builds and applies\<close>

lemma apply_layers_length:
  "apply_layers net layers ns from_idx to_idx graph_idx n ef outs = Inr (final, outs')
     \<Longrightarrow> length outs' = length outs + length layers"
proof (induction layers arbitrary: ns outs)
  case Nil
  then show ?case by simp
next
  case (Cons layer rest)
  then show ?case by (auto split: sum.splits)
qed


lemma build_prop_layers_unshared:
  "\<not> share_prop_params net
     \<Longrightarrow> build_prop_layers net ids layers = Inr (layers @ map (build_layer net) ids)"
  by (induction ids arbitrary: layers) auto







lemma attention_input_empty:
  assumes "PAIRWISE_SIMILARITY_FUNCTION sim_name = Some sim" and "even n" and "0 < n"
  shows "attention_input layer [] [] n sim_name = Inr []"
proof -
  have "0 < n div 2" using assms(2,3) by auto
  then show ?thesis
    using assms
    by (auto simp: attention_input_def batch_block_pair_attention_def
          get_pairwise_similarity_def dynamic_partition_def segment_ids_ok_def concat_first_def
          pair_results_def compute_cross_attention_def segment_rows_def matmul_def
          softmax_axis1_def softmax_axis0_def transpose_mat_def Let_def)
qed

lemma forward_pass_applies_all_layers:
  assumes "GraphEmbeddingNet_build net nf ef from_idx to_idx graph_idx n = Inr (net', gs)"
  shows "\<exists>outs. layer_outputs net' = Some outs \<and> length outs = length (prop_layers net') + 1"
    and "\<not> int (length (prop_layers net)) < n_prop_layers net
           \<Longrightarrow> prop_layers net' = prop_layers net"
    and "n_prop_layers net' = n_prop_layers net"
  using assms
  by (auto simp: GraphEmbeddingNet_build_def Let_def case_prod_unfold
        split: sum.splits if_splits dest: apply_layers_length)

lemma first_connection_variables:
  assumes "prop_layers net = []" and "layer_variables net = None"
    and "\<not> share_prop_params net"
    and "GraphEmbeddingNet_build net nf ef from_idx to_idx graph_idx n = Inr (net', gs)"
  shows "layer_variables net' = Some (map GraphProp [0..<length (prop_layers net')])"
    and "\<not> share_prop_params net'"
proof -
  have b: "build_prop_layers net ids [] = Inr (map (build_layer net) ids)" for ids
    using build_prop_layers_unshared [OF assms(3), of ids "[]"] by simp
  have names: "map scope_name (map (build_layer net) ids) = map GraphProp ids" for ids
    by (simp add: build_layer_def)
  have p: "prop_layers net' = map (build_layer net) [0..<nat (n_prop_layers net)]"
    and v: "layer_variables net' = Some (map scope_name (prop_layers net'))"
    and s: "share_prop_params net' = share_prop_params net"
    using assms(1,2,4)
    by (auto simp: GraphEmbeddingNet_build_def b split: sum.splits if_splits)
  show "layer_variables net' = Some (map GraphProp [0..<length (prop_layers net')])"
    unfolding v unfolding p names by simp
  show "\<not> share_prop_params net'"
    using s assms(3) by simp
qed

lemmas net_eval =
  example_config_def example_net_config_def example_weights_def
  build_model_def connect_model_def pairwise_loss_def euclidean_distance_def
  GraphEncoder_init_def GraphEmbeddingNet_init_def GraphMatchingNet_init_def
  GraphAggregator_init_def AGGREGATION_TYPE_def GraphEmbeddingNet_build_def
  GraphEncoder_build_def mlp_rows_def build_layer_def apply_layer_def variables_exist_def
  reset_n_prop_layers_def
  GraphPropLayer_init_def GraphPropLayer_build_def compute_aggregated_messages_def
  compute_node_update_def graph_prop_once_def gather_def
  GraphAggregator_build_def node_values_def has_graph_transform_def
  unsorted_segment_sum_def segment_reduce_def segment_ids_ok_def segment_rows_def
  reduce_sum_rows_def vadd_def zeros_def upt_rec Let_def

text \<open>
  C1 says that after \<open>reset_n_prop_layers(k)\<close> with \<open>k\<close> smaller than the number of layers
  built, a forward pass applies exactly \<open>k\<close> layers. The forward pass loops over all of
  \<open>_prop_layers\<close> instead: a model built with 5 layers and reset to 3 still applies 5
  layers (\<open>layer_outputs\<close> has 6 entries) and returns the same graph vectors as before
  the reset.
\<close>

theorem reset_to_fewer_layers_still_applies_all:
  "(case build_model (example_config ''embedding'' 5 False ''residual'' ''dotproduct'' ''sum'')
          example_weights of
      Inl e \<Rightarrow> False
    | Inr (model, n) \<Rightarrow>
        (case GraphEmbeddingNet_build model [[1], [1]] None [0] [1] [0, 1] 2 of
           Inl e \<Rightarrow> False
         | Inr (trained, vectors) \<Rightarrow>
             length (prop_layers trained) = 5
             \<and> (case reset_n_prop_layers 3 trained of
                  Inl e \<Rightarrow> False
                | Inr evaluated \<Rightarrow>
                    n_prop_layers evaluated = 3
                    \<and> (case GraphEmbeddingNet_build evaluated [[1], [1]] None [0] [1] [0, 1] 2 of
                         Inl e \<Rightarrow> False
                       | Inr (final, vectors') \<Rightarrow>
                           map_option length (layer_outputs final) = Some (5 + 1)
                           \<and> map_option length (layer_outputs final) \<noteq> Some (3 + 1)
                           \<and> vectors' = vectors))))"
  by (simp add: net_eval)

subsection \<open>Resetting to more layers than were built\<close>




text \<open>
  With shared parameters the same reset is served: the forward pass appends the first
  layer again and every layer it applies has its variables.
\<close>

lemma reset_to_more_layers_shared_runs:
  "(case build_model (example_config ''embedding'' 2 True ''residual'' ''dotproduct'' ''sum'')
          example_weights of
      Inl e \<Rightarrow> False
    | Inr (model, n) \<Rightarrow>
        share_prop_params model
        \<and> length (prop_layers model) = 2
        \<and> (case GraphEmbeddingNet_build (model \<lparr> n_prop_layers := 3 \<rparr>)
                   [[1], [1]] None [0] [1] [0, 1] 2 of
             Inl e \<Rightarrow> False
           | Inr (final, vectors) \<Rightarrow> map_option length (layer_outputs final) = Some (5 + 1)))"
  by (simp add: net_eval)

subsection \<open>Unknown names in the configuration\<close>
















text \<open>
  The matching variant with known names builds: the failures above are not failures of
  every matching model on the batch without nodes.
\<close>

lemma matching_model_builds:
  "\<exists>r. build_model (example_config ''matching'' 2 False ''residual'' ''dotproduct'' ''sum'')
          example_weights = Inr r"
  by (simp add: net_eval GraphPropMatchingLayer_build_def attention_input_def
        batch_block_pair_attention_def get_pairwise_similarity_def
        PAIRWISE_SIMILARITY_FUNCTION_def dynamic_partition_def concat_first_def
        pair_results_def compute_cross_attention_def matmul_def softmax_axis1_def
        softmax_axis0_def transpose_mat_def pairwise_dot_product_similarity_def
        matmul_transpose_b_def)

end
